theory Spec2Isabelle
  imports Complex_Main "HOL-Library.Word"
begin

section \<open>Strings, bytes and errors\<close>

text \<open>
  A JavaScript string is modelled as a \<^typ>\<open>string\<close>: the list of its code units, each
  below 256. A \<open>Buffer\<close> is a list of bytes. Every \<open>throw new Error(msg)\<close> of the source
  is the value \<open>Inl (Error msg)\<close> of a result type \<open>error + 'a\<close>; a library call that may
  throw returns \<open>string + 'a\<close>, with \<open>Inl\<close> carrying the message of the thrown error.
\<close>

type_synonym byte = "8 word"
type_synonym buffer = "byte list"

datatype error = Error string

section \<open>Regular expressions\<close>

text \<open>
  The source tests strings against anchored patterns (\<open>/^...$/\<close>, no flags). A pattern is
  a value of \<open>rexp\<close>; a character class \<open>[a-bc-d]\<close> is the list of its inclusive ranges.
  \<open>regex_test r s\<close> is \<open>/^r$/.test(s)\<close>: without the multiline flag \<open>^\<close> and \<open>$\<close>
  match at the two ends of the input only, so the test asks whether the whole string is
  in the language of \<open>r\<close>. It is computed with derivatives.
\<close>

datatype rexp =
    RFail
  | REps
  | RClass "(char \<times> char) list"
  | RAlt rexp rexp
  | RSeq rexp rexp
  | RStar rexp

definition in_range :: "char \<Rightarrow> char \<times> char \<Rightarrow> bool" where
  "in_range c r = ((of_char (fst r) :: nat) \<le> of_char c \<and> (of_char c :: nat) \<le> of_char (snd r))"

definition in_class :: "char \<Rightarrow> (char \<times> char) list \<Rightarrow> bool" where
  "in_class c rs = list_ex (in_range c) rs"

text \<open>\<open>r+\<close> and \<open>r{0,n}\<close>.\<close>

definition RPlus :: "rexp \<Rightarrow> rexp" where
  "RPlus r = RSeq r (RStar r)"

fun RUpto :: "nat \<Rightarrow> rexp \<Rightarrow> rexp" where
  "RUpto 0 r = REps"
| "RUpto (Suc n) r = RAlt REps (RSeq r (RUpto n r))"

fun nullable :: "rexp \<Rightarrow> bool" where
  "nullable RFail = False"
| "nullable REps = True"
| "nullable (RClass rs) = False"
| "nullable (RAlt a b) = (nullable a \<or> nullable b)"
| "nullable (RSeq a b) = (nullable a \<and> nullable b)"
| "nullable (RStar a) = True"

fun deriv :: "char \<Rightarrow> rexp \<Rightarrow> rexp" where
  "deriv c RFail = RFail"
| "deriv c REps = RFail"
| "deriv c (RClass rs) = (if in_class c rs then REps else RFail)"
| "deriv c (RAlt a b) = RAlt (deriv c a) (deriv c b)"
| "deriv c (RSeq a b) =
     (if nullable a then RAlt (RSeq (deriv c a) b) (deriv c b) else RSeq (deriv c a) b)"
| "deriv c (RStar a) = RSeq (deriv c a) (RStar a)"

definition regex_test :: "rexp \<Rightarrow> string \<Rightarrow> bool" where
  "regex_test r s = nullable (foldl (\<lambda>q c. deriv c q) r s)"

text \<open>The language of a pattern, against which the matcher is justified.\<close>

definition conc :: "string set \<Rightarrow> string set \<Rightarrow> string set" where
  "conc A B = {u @ v | u v. u \<in> A \<and> v \<in> B}"

inductive_set kstar :: "string set \<Rightarrow> string set" for A :: "string set" where
  kstar_nil: "[] \<in> kstar A"
| kstar_app: "u \<in> A \<Longrightarrow> v \<in> kstar A \<Longrightarrow> u @ v \<in> kstar A"

fun lang :: "rexp \<Rightarrow> string set" where
  "lang RFail = {}"
| "lang REps = {[]}"
| "lang (RClass rs) = {[c] | c. in_class c rs}"
| "lang (RAlt a b) = lang a \<union> lang b"
| "lang (RSeq a b) = conc (lang a) (lang b)"
| "lang (RStar a) = kstar (lang a)"

section \<open>Network configuration and validation helpers (utils/bitcoin.ts)\<close>

text \<open>
  The three parameter sets \<open>bitcoin.networks.bitcoin\<close>, \<open>bitcoin.networks.testnet\<close> and
  \<open>bitcoin.networks.regtest\<close> of the library are three distinct constants.
\<close>

datatype network = Bitcoin | Testnet | Regtest

text \<open>
  \<open>String.prototype.toLowerCase\<close> on code units below 256: the letters \<open>A\<close> to \<open>Z\<close> and
  the upper-case letters of the Latin-1 block (192 to 222 except the multiplication sign
  215) move up by 32, every other unit is unchanged.
\<close>

definition toLowerCase_char :: "char \<Rightarrow> char" where
  "toLowerCase_char c =
     (let n = (of_char c :: nat)
      in if (65 \<le> n \<and> n \<le> 90) \<or> (192 \<le> n \<and> n \<le> 222 \<and> n \<noteq> 215)
         then char_of (n + 32) else c)"

definition toLowerCase :: "string \<Rightarrow> string" where
  "toLowerCase s = map toLowerCase_char s"

text \<open>
  \<^verbatim>\<open>
  export function getNetworkConfig(networkName: string): bitcoin.Network {
    switch (networkName.toLowerCase()) {
      case 'mainnet': return networks.mainnet;
      case 'testnet': return networks.testnet;
      case 'regtest': return networks.regtest;
      default: throw new Error(`Unsupported network: ${networkName}`);
    }
  }
  export function validateNetwork(network: string): boolean {
    return ['mainnet', 'testnet', 'regtest'].includes(network.toLowerCase());
  }
  \<close>
\<close>

definition getNetworkConfig :: "string \<Rightarrow> error + network" where
  "getNetworkConfig networkName =
     (let l = toLowerCase networkName
      in if l = ''mainnet'' then Inr Bitcoin
         else if l = ''testnet'' then Inr Testnet
         else if l = ''regtest'' then Inr Regtest
         else Inl (Error (''Unsupported network: '' @ networkName)))"

definition validateNetwork :: "string \<Rightarrow> bool" where
  "validateNetwork network =
     List.member [''mainnet'', ''testnet'', ''regtest''] (toLowerCase network)"

text \<open>
  The spec's words for the matching of names: two strings are equal ignoring case when
  they have the same length and each character of the first is the corresponding
  character of the second or its upper-case letter (the second string being a lower-case
  name).
\<close>

definition ascii_upper :: "char \<Rightarrow> char" where
  "ascii_upper c =
     (let n = (of_char c :: nat) in if 97 \<le> n \<and> n \<le> 122 then char_of (n - 32) else c)"

definition equal_ignoring_case :: "string \<Rightarrow> string \<Rightarrow> bool" where
  "equal_ignoring_case s t = list_all2 (\<lambda>a b. a = b \<or> a = ascii_upper b) s t"

definition is_lower_letter :: "char \<Rightarrow> bool" where
  "is_lower_letter c = (97 \<le> (of_char c :: nat) \<and> (of_char c :: nat) \<le> 122)"

text \<open>\<open>[0-9a-fA-F]\<close>\<close>

definition hex_class :: "(char \<times> char) list" where
  "hex_class = [(CHR ''0'', CHR ''9''), (CHR ''a'', CHR ''f''), (CHR ''A'', CHR ''F'')]"

text \<open>
  \<^verbatim>\<open>
  export function isValidHex(hex: string): boolean {
    return /^[0-9a-fA-F]*$/.test(hex) && hex.length % 2 === 0;
  }
  \<close>
\<close>

definition isValidHex :: "string \<Rightarrow> bool" where
  "isValidHex hex = (regex_test (RStar (RClass hex_class)) hex \<and> length hex mod 2 = 0)"

text \<open>The spec's words for \<open>isHex\<close>: every character is a hex digit.\<close>

definition is_hex_digit :: "char \<Rightarrow> bool" where
  "is_hex_digit c = (c \<in> set ''0123456789abcdefABCDEF'')"

section \<open>Tool registries and dispatcher (index.ts, tools/*.ts)\<close>

text \<open>
  A \<open>Tool\<close> descriptor: its name, its description, and of its input schema the names of
  the top-level properties and the \<open>required\<close> list, in the order of the source.
\<close>

record tool =
  name :: string
  description :: string
  properties :: "string list"
  required :: "string list"

definition addressTools :: "tool list" where
  "addressTools = [
    \<lparr>name = ''generate_address'',
     description = ''Generate Bitcoin addresses of various types (P2PKH, P2SH, P2WPKH, P2WSH, P2TR)'',
     properties = [''type'', ''network'', ''publicKey'', ''redeemScript'', ''witnessScript''],
     required = [''type'']\<rparr>,
    \<lparr>name = ''validate_address'',
     description = ''Validate Bitcoin address format and determine its properties'',
     properties = [''address'', ''network''],
     required = [''address'']\<rparr>,
    \<lparr>name = ''decode_address'',
     description = ''Decode Bitcoin address to reveal underlying script and information'',
     properties = [''address'', ''network''],
     required = [''address'']\<rparr>,
    \<lparr>name = ''address_from_script'',
     description = ''Generate address from a script'',
     properties = [''script'', ''network'', ''type''],
     required = [''script'', ''type'']\<rparr>]"

definition transactionTools :: "tool list" where
  "transactionTools = [
    \<lparr>name = ''create_transaction'',
     description = ''Create a new Bitcoin transaction'',
     properties = [''inputs'', ''outputs'', ''network'', ''locktime'', ''version''],
     required = [''inputs'', ''outputs'']\<rparr>,
    \<lparr>name = ''decode_transaction'',
     description = ''Decode a raw transaction hex to readable format'',
     properties = [''hex'', ''network''],
     required = [''hex'']\<rparr>,
    \<lparr>name = ''sign_transaction'',
     description = ''Sign a transaction with provided private keys'',
     properties = [''hex'', ''privateKeys'', ''network''],
     required = [''hex'', ''privateKeys'']\<rparr>,
    \<lparr>name = ''estimate_transaction_fee'',
     description = ''Estimate transaction size and fee'',
     properties = [''inputs'', ''outputs'', ''feeRate'', ''inputType''],
     required = [''inputs'', ''outputs'', ''feeRate'']\<rparr>,
    \<lparr>name = ''broadcast_transaction'',
     description = ''Validate transaction format (does not actually broadcast)'',
     properties = [''hex'', ''network''],
     required = [''hex'']\<rparr>]"

definition psbtTools :: "tool list" where
  "psbtTools = [
    \<lparr>name = ''create_psbt'',
     description = ''Create a new Partially Signed Bitcoin Transaction (PSBT)'',
     properties = [''inputs'', ''outputs'', ''network'', ''version'', ''locktime''],
     required = [''inputs'', ''outputs'']\<rparr>,
    \<lparr>name = ''decode_psbt'',
     description = ''Decode a PSBT to readable format'',
     properties = [''psbt'', ''network''],
     required = [''psbt'']\<rparr>,
    \<lparr>name = ''sign_psbt'',
     description = ''Sign a PSBT with private keys'',
     properties = [''psbt'', ''privateKeys'', ''network''],
     required = [''psbt'', ''privateKeys'']\<rparr>,
    \<lparr>name = ''finalize_psbt'',
     description = ''Finalize a signed PSBT and extract the transaction'',
     properties = [''psbt'', ''network''],
     required = [''psbt'']\<rparr>,
    \<lparr>name = ''combine_psbts'',
     description = ''Combine multiple PSBTs into one'',
     properties = [''psbts'', ''network''],
     required = [''psbts'']\<rparr>,
    \<lparr>name = ''update_psbt'',
     description = ''Update PSBT with additional information'',
     properties = [''psbt'', ''inputIndex'', ''updates'', ''network''],
     required = [''psbt'', ''inputIndex'', ''updates'']\<rparr>]"

definition utilityTools :: "tool list" where
  "utilityTools = [
    \<lparr>name = ''generate_keypair'',
     description = ''Generate a new Bitcoin key pair (private/public keys)'',
     properties = [''network'', ''compressed''],
     required = []\<rparr>,
    \<lparr>name = ''create_multisig'',
     description = ''Create multisignature address and scripts'',
     properties = [''m'', ''publicKeys'', ''network'', ''addressType''],
     required = [''m'', ''publicKeys'']\<rparr>,
    \<lparr>name = ''compile_script'',
     description = ''Compile Bitcoin Script from ASM or create common script types'',
     properties = [''scriptAsm'', ''scriptType'', ''publicKey'', ''publicKeyHash'', ''scriptHash'',
                   ''data'', ''multisigConfig'', ''network''],
     required = []\<rparr>,
    \<lparr>name = ''hash_message'',
     description = ''Hash messages using Bitcoin-specific hash functions'',
     properties = [''message'', ''hashType'', ''tag'', ''encoding''],
     required = [''message'']\<rparr>,
    \<lparr>name = ''derive_child_key'',
     description = ''Derive child keys from extended keys (BIP32)'',
     properties = [''extendedKey'', ''derivationPath'', ''network''],
     required = [''extendedKey'', ''derivationPath'']\<rparr>,
    \<lparr>name = ''verify_message'',
     description = ''Verify a Bitcoin message signature'',
     properties = [''address'', ''message'', ''signature'', ''network''],
     required = [''address'', ''message'', ''signature'']\<rparr>]"

text \<open>
  \<^verbatim>\<open>
  private setupTools() {
    const allTools = [...addressTools, ...transactionTools, ...psbtTools, ...utilityTools];
    for (const tool of allTools) { this.tools.set(tool.name, tool); }
  }
  \<close>
  The \<open>Map\<close> is a map from names to descriptors; \<open>set\<close> replaces an entry of the same
  name, so a later descriptor would shadow an earlier one.
\<close>

definition allTools :: "tool list" where
  "allTools = addressTools @ transactionTools @ psbtTools @ utilityTools"

definition setupTools :: "string \<rightharpoonup> tool" where
  "setupTools = fold (\<lambda>t tools. tools(name t \<mapsto> t)) allTools Map.empty"

text \<open>
  The request handler looks the name up in the map (\<open>Unknown tool\<close> if absent) and then
  asks each registry in turn, with \<open>find\<close>, whether it declares the name; the first
  registry that does gives the handler. (The first error is thrown to the caller, the
  second is caught and returned in the error envelope; both are \<open>Inl\<close> here.)
\<close>

datatype category = AddressTool | TransactionTool | PSBTTool | UtilityTool

definition declares :: "tool list \<Rightarrow> string \<Rightarrow> bool" where
  "declares registry n = (find (\<lambda>t. name t = n) registry \<noteq> None)"

definition route :: "string \<Rightarrow> error + category" where
  "route n =
     (case setupTools n of
        None \<Rightarrow> Inl (Error (''Unknown tool: '' @ n))
      | Some tool \<Rightarrow>
          if declares addressTools n then Inr AddressTool
          else if declares transactionTools n then Inr TransactionTool
          else if declares psbtTools n then Inr PSBTTool
          else if declares utilityTools n then Inr UtilityTool
          else Inl (Error (''No handler found for tool: '' @ n)))"

section \<open>Handler prelude: the network argument\<close>

text \<open>
  Every handler starts with
  \<^verbatim>\<open>
  const networkName = args.network || 'testnet';
  if (!validateNetwork(networkName)) { throw new Error(`Invalid network: ${networkName}`); }
  const network = getNetworkConfig(networkName);
  \<close>
  An optional string argument is a \<open>string option\<close>; \<open>x || d\<close> is \<open>d\<close> when \<open>x\<close> is absent
  or the empty string.
\<close>

definition or_default :: "string option \<Rightarrow> string \<Rightarrow> string" where
  "or_default x d = (case x of None \<Rightarrow> d | Some s \<Rightarrow> if s = [] then d else s)"

definition resolveNetwork :: "string option \<Rightarrow> error + network" where
  "resolveNetwork network =
     (let networkName = or_default network ''testnet''
      in if \<not> validateNetwork networkName
         then Inl (Error (''Invalid network: '' @ networkName))
         else getNetworkConfig networkName)"

text \<open>A non-negative integer in a template literal: its decimal digits.\<close>

definition digit_char :: "nat \<Rightarrow> char" where
  "digit_char d = ''0123456789'' ! d"

function decimal :: "nat \<Rightarrow> string" where
  "decimal n = (if n < 10 then [digit_char n] else decimal (n div 10) @ [digit_char (n mod 10)])"
  by pat_completeness auto
termination
  by (relation "measure id") auto

declare decimal.simps [simp del]


section \<open>PSBT input format (tools/psbt.ts)\<close>

text \<open>
  \<open>decodePSBT\<close>, \<open>signPSBT\<close>, \<open>finalizePSBT\<close> and \<open>updatePSBT\<close> each read their \<open>psbt\<close>
  argument with
  \<^verbatim>\<open>
  try {
    if (args.psbt.match(/^[A-Za-z0-9+/]*={0,2}$/)) {
      psbt = bitcoin.Psbt.fromBase64(args.psbt, { network });
    } else {
      psbt = bitcoin.Psbt.fromHex(args.psbt, { network });
    }
  } catch (error) {
    throw new Error(`Invalid PSBT format: ${error instanceof Error ? error.message : 'Unknown error'}`);
  }
  \<close>
  and \<open>combinePSBTs\<close> does the same for each element of \<open>psbts\<close>, with the message
  \<open>Invalid PSBT format at index ${index}: ...\<close>. \<open>match\<close> returns an array (truthy, also
  for the empty match) or \<open>null\<close>. The two library parsers are parameters.
\<close>

definition base64_class :: "(char \<times> char) list" where
  "base64_class = [(CHR ''A'', CHR ''Z''), (CHR ''a'', CHR ''z''), (CHR ''0'', CHR ''9''),
                   (CHR ''+'', CHR ''+''), (CHR ''/'', CHR ''/'')]"

definition base64_pattern :: rexp where
  "base64_pattern = RSeq (RStar (RClass base64_class)) (RUpto 2 (RClass [(CHR ''='', CHR ''='')]))"

datatype psbt_branch = FromBase64 | FromHex

definition psbt_branch :: "string \<Rightarrow> psbt_branch" where
  "psbt_branch s = (if regex_test base64_pattern s then FromBase64 else FromHex)"

definition parse_psbt ::
  "(string \<Rightarrow> network \<Rightarrow> string + 'p) \<Rightarrow> (string \<Rightarrow> network \<Rightarrow> string + 'p)
     \<Rightarrow> string \<Rightarrow> string \<Rightarrow> network \<Rightarrow> error + 'p" where
  "parse_psbt fromBase64 fromHex prefix s network =
     (case (case psbt_branch s of
              FromBase64 \<Rightarrow> fromBase64 s network
            | FromHex \<Rightarrow> fromHex s network) of
        Inl msg \<Rightarrow> Inl (Error (prefix @ msg))
      | Inr psbt \<Rightarrow> Inr psbt)"

text \<open>The first steps of \<open>decodePSBT\<close>, \<open>signPSBT\<close>, \<open>finalizePSBT\<close> and \<open>updatePSBT\<close>.\<close>

definition load_psbt ::
  "(string \<Rightarrow> network \<Rightarrow> string + 'p) \<Rightarrow> (string \<Rightarrow> network \<Rightarrow> string + 'p)
     \<Rightarrow> string \<Rightarrow> string option \<Rightarrow> error + 'p" where
  "load_psbt fromBase64 fromHex psbt network =
     (case resolveNetwork network of
        Inl e \<Rightarrow> Inl e
      | Inr net \<Rightarrow> parse_psbt fromBase64 fromHex ''Invalid PSBT format: '' psbt net)"

text \<open>
  The first steps of \<open>combinePSBTs\<close>: at least two strings, then each is parsed in turn,
  the first failure being thrown.
\<close>

fun parse_psbts ::
  "(string \<Rightarrow> network \<Rightarrow> string + 'p) \<Rightarrow> (string \<Rightarrow> network \<Rightarrow> string + 'p)
     \<Rightarrow> network \<Rightarrow> nat \<Rightarrow> string list \<Rightarrow> error + 'p list" where
  "parse_psbts fromBase64 fromHex net index [] = Inr []"
| "parse_psbts fromBase64 fromHex net index (psbtStr # rest) =
     (case parse_psbt fromBase64 fromHex
             (''Invalid PSBT format at index '' @ decimal index @ '': '') psbtStr net of
        Inl e \<Rightarrow> Inl e
      | Inr p \<Rightarrow>
          (case parse_psbts fromBase64 fromHex net (Suc index) rest of
             Inl e \<Rightarrow> Inl e
           | Inr ps \<Rightarrow> Inr (p # ps)))"

definition load_psbts ::
  "(string \<Rightarrow> network \<Rightarrow> string + 'p) \<Rightarrow> (string \<Rightarrow> network \<Rightarrow> string + 'p)
     \<Rightarrow> string list \<Rightarrow> string option \<Rightarrow> error + 'p list" where
  "load_psbts fromBase64 fromHex psbts network =
     (case resolveNetwork network of
        Inl e \<Rightarrow> Inl e
      | Inr net \<Rightarrow>
          if length psbts < 2
          then Inl (Error ''At least 2 PSBTs are required for combination'')
          else parse_psbts fromBase64 fromHex net 0 psbts)"

section \<open>Numbers\<close>

text \<open>
  A JavaScript number is a double. Fee estimation is given integers, and every number it
  computes is an integer or is not finite (a quotient is taken only inside \<open>Math.ceil\<close>
  and before \<open>toFixed\<close>), so a number is modelled as the integer a double holds, an
  infinity or \<open>NaN\<close>. The two zeros are one value: no comparison tells them apart and
  both print as \<open>0\<close>.

  A double holds an integer of at most 53 bits exactly; a longer one is rounded to 53
  significant bits, to the nearest and to the even one of two nearest, and a result of
  \<open>2^1024\<close> or more is an infinity.
\<close>

datatype number = Finite int | Infinity | NegInfinity | NaN

text \<open>The number of bits of a natural number.\<close>

function bits :: "nat \<Rightarrow> nat" where
  "bits n = (if n = 0 then 0 else Suc (bits (n div 2)))"
  by pat_completeness auto
termination
  by (relation "measure id") auto

declare bits.simps [simp del]

text \<open>The quotient \<open>q\<close> of a division by \<open>d\<close> with remainder \<open>r\<close>, rounded.\<close>

definition half_even :: "nat \<Rightarrow> nat \<Rightarrow> nat \<Rightarrow> nat" where
  "half_even q r d = (if d < 2 * r \<or> (2 * r = d \<and> odd q) then q + 1 else q)"

definition round_nat :: "nat \<Rightarrow> nat" where
  "round_nat a =
     (if a < 2 ^ 53 then a
      else let e = bits a - 53
           in half_even (a div 2 ^ e) (a mod 2 ^ e) (2 ^ e) * 2 ^ e)"

definition to_number :: "int \<Rightarrow> number" where
  "to_number x =
     (let r = round_nat (nat \<bar>x\<bar>)
      in if 2 ^ 1024 \<le> r then (if x < 0 then NegInfinity else Infinity)
         else Finite (if x < 0 then - int r else int r))"

fun num_neg :: "number \<Rightarrow> number" where
  "num_neg (Finite x) = Finite (- x)"
| "num_neg Infinity = NegInfinity"
| "num_neg NegInfinity = Infinity"
| "num_neg NaN = NaN"

fun num_add :: "number \<Rightarrow> number \<Rightarrow> number" where
  "num_add (Finite x) (Finite y) = to_number (x + y)"
| "num_add NaN y = NaN"
| "num_add x NaN = NaN"
| "num_add Infinity NegInfinity = NaN"
| "num_add NegInfinity Infinity = NaN"
| "num_add Infinity y = Infinity"
| "num_add x Infinity = Infinity"
| "num_add NegInfinity y = NegInfinity"
| "num_add x NegInfinity = NegInfinity"

definition num_sub :: "number \<Rightarrow> number \<Rightarrow> number" where
  "num_sub x y = num_add x (num_neg y)"

fun num_sign :: "number \<Rightarrow> int" where
  "num_sign (Finite x) = sgn x"
| "num_sign Infinity = 1"
| "num_sign NegInfinity = - 1"
| "num_sign NaN = 0"

fun num_mul :: "number \<Rightarrow> number \<Rightarrow> number" where
  "num_mul (Finite x) (Finite y) = to_number (x * y)"
| "num_mul NaN y = NaN"
| "num_mul x NaN = NaN"
| "num_mul x y =
     (if num_sign x * num_sign y = 0 then NaN
      else if 0 < num_sign x * num_sign y then Infinity else NegInfinity)"

text \<open>\<open>x <= y\<close>: false when either side is \<open>NaN\<close>.\<close>

fun num_le :: "number \<Rightarrow> number \<Rightarrow> bool" where
  "num_le (Finite x) (Finite y) = (x \<le> y)"
| "num_le NaN y = False"
| "num_le x NaN = False"
| "num_le NegInfinity y = True"
| "num_le x Infinity = True"
| "num_le Infinity y = False"
| "num_le (Finite x) NegInfinity = False"

text \<open>
  \<open>Math.ceil(x / 4)\<close>: a division by four only lowers the exponent of a double, so the
  quotient is exact, and so is its ceiling.
\<close>

fun ceil_quarter :: "number \<Rightarrow> number" where
  "ceil_quarter (Finite x) = Finite \<lceil>real_of_int x / 4\<rceil>"
| "ceil_quarter x = x"

text \<open>
  \<open>Math.ceil\<close> of a product of numbers of this model, which is an integer or is not
  finite: the number itself.
\<close>

definition math_ceil :: "number \<Rightarrow> number" where
  "math_ceil x = x"

subsection \<open>Printing a number\<close>

text \<open>
  \<open>Number::toString\<close> prints the shortest run of digits that reads back as the same
  double (of several, the nearest; of two nearest, the even one): \<open>shortest x m k\<close> looks
  for it among the runs of \<open>k\<close> digits and more, \<open>m\<close> being the number of digits of \<open>x\<close>,
  and returns it with its length. A run of digits that reads \<open>10 ^ k\<close> is the one digit
  \<open>1\<close> of a number that has a digit more. From \<open>10 ^ 21\<close> on the exponent is printed.
\<close>

function shortest :: "nat \<Rightarrow> nat \<Rightarrow> nat \<Rightarrow> nat \<times> nat" where
  "shortest x m k =
     (let u = 10 ^ (m - k);
          lo = x div u;
          hi = lo + 1;
          okl = (round_nat (lo * u) = x);
          okh = (round_nat (hi * u) = x);
          nearer = (x - lo * u < hi * u - x \<or> (x - lo * u = hi * u - x \<and> even lo))
      in if okl \<or> okh \<or> m \<le> k
         then if (if okl then (if okh then nearer else True) else False)
              then (lo, k) else (hi, k)
         else shortest x m (k + 1))"
  by pat_completeness auto
termination
  by (relation "measure (\<lambda>(x, m, k). m - k)") auto

declare shortest.simps [simp del]

definition nat_string :: "nat \<Rightarrow> string" where
  "nat_string x =
     (if x = 0 then ''0''
      else let m = length (decimal x);
               (s, k) = shortest x m 1;
               ds = (if s = 10 ^ k then ''1'' else decimal s);
               n = (if s = 10 ^ k then m + 1 else m)
           in if n \<le> 21 then ds @ replicate (n - length ds) (CHR ''0'')
              else if length ds = 1 then ds @ ''e+'' @ decimal (n - 1)
              else hd ds # ''.'' @ tl ds @ ''e+'' @ decimal (n - 1))"

fun number_string :: "number \<Rightarrow> string" where
  "number_string (Finite x) = (if x < 0 then ''-'' else '''') @ nat_string (nat \<bar>x\<bar>)"
| "number_string Infinity = ''Infinity''"
| "number_string NegInfinity = ''-Infinity''"
| "number_string NaN = ''NaN''"

text \<open>
  \<open>(x / d).toFixed(k)\<close> for a positive integer \<open>d\<close>. The quotient of two positive
  integers \<open>p\<close> and \<open>q\<close> is the double nearest to \<open>p / q\<close>: \<open>double_quotient p q\<close> is its
  pair \<open>(m, e)\<close> with \<open>2^52 \<le> m \<le> 2^53\<close> and value \<open>m * 2^e\<close> (the quotients taken here
  are neither subnormal nor infinite). \<open>toFixed\<close> prints the sign, then the integer nearest
  to \<open>m * 2^e * 10^k\<close> (the larger of two nearest) with \<open>k\<close> digits after the point; from
  \<open>10 ^ 21\<close> on it prints the number as \<open>Number::toString\<close> does.
\<close>

definition scaled :: "nat \<Rightarrow> nat \<Rightarrow> int \<Rightarrow> nat \<times> nat" where
  "scaled p q e = (if e < 0 then (p * 2 ^ nat (- e), q) else (p, q * 2 ^ nat e))"

definition double_quotient :: "nat \<Rightarrow> nat \<Rightarrow> nat \<times> int" where
  "double_quotient p q =
     (let e0 = int (bits p) - int (bits q) - 53;
          (n0, d0) = scaled p q e0;
          e = (if 2 ^ 53 * d0 \<le> n0 then e0 + 1 else e0);
          (n, d) = scaled p q e
      in (half_even (n div d) (n mod d) d, e))"

definition fixed_digits :: "nat \<Rightarrow> int \<Rightarrow> nat \<Rightarrow> nat" where
  "fixed_digits m e k =
     (if 0 \<le> e then m * 2 ^ nat e * 10 ^ k
      else (2 * m * 10 ^ k + 2 ^ nat (- e)) div 2 ^ nat (1 - e))"

definition fixed_string :: "nat \<Rightarrow> nat \<Rightarrow> string" where
  "fixed_string n k =
     (let frac = decimal (n mod 10 ^ k)
      in decimal (n div 10 ^ k) @ ''.'' @ replicate (k - length frac) (CHR ''0'') @ frac)"

fun toFixed_quotient :: "number \<Rightarrow> nat \<Rightarrow> nat \<Rightarrow> string" where
  "toFixed_quotient (Finite x) d k =
     (if x = 0 then fixed_string 0 k
      else let (m, e) = double_quotient (nat \<bar>x\<bar>) d
           in (if x < 0 then ''-'' else '''')
                @ (if 0 \<le> e \<and> 10 ^ 21 \<le> m * 2 ^ nat e then nat_string (m * 2 ^ nat e)
                   else fixed_string (fixed_digits m e k) k))"
| "toFixed_quotient x d k = number_string x"

section \<open>Amounts (utils/bitcoin.ts)\<close>

text \<open>
  \<^verbatim>\<open>
  export function formatSatoshis(satoshis: number, unit: 'BTC' | 'mBTC' | 'sat' = 'BTC'): string {
    switch (unit) {
      case 'BTC':  return (satoshis / 100000000).toFixed(8) + ' BTC';
      case 'mBTC': return (satoshis / 100000).toFixed(5) + ' mBTC';
      case 'sat':  return satoshis + ' sat';
      default:     return satoshis.toString();
    }
  }
  \<close>
  The type of \<open>unit\<close> leaves the \<open>default\<close> branch no value.
\<close>

datatype amount_unit = BTC | mBTC | sat

definition formatSatoshis :: "number \<Rightarrow> amount_unit \<Rightarrow> string" where
  "formatSatoshis satoshis unit =
     (case unit of
        BTC \<Rightarrow> toFixed_quotient satoshis 100000000 8 @ '' BTC''
      | mBTC \<Rightarrow> toFixed_quotient satoshis 100000 5 @ '' mBTC''
      | sat \<Rightarrow> number_string satoshis @ '' sat'')"

text \<open>
  \<^verbatim>\<open>
  export function estimateTransactionSize(inputs: number, outputs: number,
                                          hasWitness: boolean = false): number {
    const baseSize = 10;
    const inputSize = hasWitness ? 41 : 148;
    const outputSize = 34;
    const size = baseSize + (inputs * inputSize) + (outputs * outputSize);
    if (hasWitness) {
      const witnessSize = inputs * 107;
      return size + Math.ceil(witnessSize / 4);
    }
    return size;
  }
  \<close>
\<close>

definition estimateTransactionSize :: "number \<Rightarrow> number \<Rightarrow> bool \<Rightarrow> number" where
  "estimateTransactionSize inputs outputs hasWitness =
     (let baseSize = Finite 10;
          inputSize = Finite (if hasWitness then 41 else 148);
          outputSize = Finite 34;
          size0 = num_add (num_add baseSize (num_mul inputs inputSize))
                          (num_mul outputs outputSize)
      in if hasWitness
         then let witnessSize = num_mul inputs (Finite 107)
              in num_add size0 (ceil_quarter witnessSize)
         else size0)"

section \<open>Fee estimation (tools/transaction.ts)\<close>

text \<open>
  \<^verbatim>\<open>
  function estimateTransactionFee(args: { inputs: number; outputs: number; feeRate: number;
                                          inputType?: string; }) {
    if (args.inputs <= 0 || args.outputs <= 0) {
      throw new Error('Inputs and outputs must be positive numbers');
    }
    if (args.feeRate <= 0) { throw new Error('Fee rate must be positive'); }
    const inputType = args.inputType || 'segwit';
    const hasWitness = inputType === 'segwit' || inputType === 'taproot';
    let inputSize: number;
    let witnessSize = 0;
    switch (inputType) {
      case 'legacy':  inputSize = 148; break;
      case 'segwit':  inputSize = 68; witnessSize = 107; break;
      case 'taproot': inputSize = 68; witnessSize = 65; break;
      default: throw new Error(`Unknown input type: ${inputType}`);
    }
    const outputSize = 34;
    const baseSize = 10;
    const size = baseSize + (args.inputs * inputSize) + (args.outputs * outputSize);
    let weight: number;
    if (hasWitness) {
      const witnessData = args.inputs * witnessSize + 2;
      weight = (size - (args.inputs * witnessSize)) * 4 + witnessData;
    } else {
      weight = size * 4;
    }
    const vsize = Math.ceil(weight / 4);
    const fee = Math.ceil(vsize * args.feeRate);
    return {
      size: hasWitness ? size - (args.inputs * witnessSize)
                           + Math.ceil((args.inputs * witnessSize) / 4) : size,
      vsize, weight, fee, feeRate: args.feeRate, feeFormatted: formatSatoshis(fee),
    };
  }
  \<close>
\<close>

text \<open>The field \<open>size\<close> of the result is \<open>size'\<close>.\<close>

record fee_estimate =
  size' :: number
  vsize :: number
  weight :: number
  fee :: number
  feeRate :: number
  feeFormatted :: string

text \<open>\<open>inputSize\<close> and \<open>witnessSize\<close> of the \<open>switch\<close>; \<open>None\<close> is its \<open>default\<close> branch.\<close>

definition input_costs :: "string \<Rightarrow> (int \<times> int) option" where
  "input_costs inputType =
     (if inputType = ''legacy'' then Some (148, 0)
      else if inputType = ''segwit'' then Some (68, 107)
      else if inputType = ''taproot'' then Some (68, 65)
      else None)"

definition estimateTransactionFee ::
  "number \<Rightarrow> number \<Rightarrow> number \<Rightarrow> string option \<Rightarrow> error + fee_estimate" where
  "estimateTransactionFee inputs outputs rate inputType' =
     (if num_le inputs (Finite 0) \<or> num_le outputs (Finite 0)
      then Inl (Error ''Inputs and outputs must be positive numbers'')
      else if num_le rate (Finite 0) then Inl (Error ''Fee rate must be positive'')
      else
        let inputType = or_default inputType' ''segwit'';
            hasWitness = (inputType = ''segwit'' \<or> inputType = ''taproot'')
        in case input_costs inputType of
             None \<Rightarrow> Inl (Error (''Unknown input type: '' @ inputType))
           | Some (inputSize, witnessSize) \<Rightarrow>
               let outputSize = Finite 34;
                   baseSize = Finite 10;
                   size0 = num_add (num_add baseSize (num_mul inputs (Finite inputSize)))
                                   (num_mul outputs outputSize);
                   weight0 =
                     (if hasWitness
                      then let witnessData =
                                 num_add (num_mul inputs (Finite witnessSize)) (Finite 2)
                           in num_add
                                (num_mul (num_sub size0 (num_mul inputs (Finite witnessSize)))
                                         (Finite 4))
                                witnessData
                      else num_mul size0 (Finite 4));
                   vsize0 = ceil_quarter weight0;
                   fee0 = math_ceil (num_mul vsize0 rate)
               in Inr \<lparr>size' =
                         (if hasWitness
                          then num_add (num_sub size0 (num_mul inputs (Finite witnessSize)))
                                 (ceil_quarter (num_mul inputs (Finite witnessSize)))
                          else size0),
                       vsize = vsize0, weight = weight0, fee = fee0, feeRate = rate,
                       feeFormatted = formatSatoshis fee0 BTC\<rparr>)"

section \<open>Buffers and hex text\<close>

text \<open>
  \<open>Buffer.from(s, 'hex')\<close> decodes pairs of hex digits from the left and stops at the
  first pair that is not two hex digits; a trailing single character is dropped (Node's
  documented truncation). \<open>buf.toString('hex')\<close> writes two lower-case digits per byte.
\<close>

definition hex_value :: "char \<Rightarrow> nat option" where
  "hex_value c =
     (let n = (of_char c :: nat)
      in if 48 \<le> n \<and> n \<le> 57 then Some (n - 48)
         else if 97 \<le> n \<and> n \<le> 102 then Some (n - 87)
         else if 65 \<le> n \<and> n \<le> 70 then Some (n - 55)
         else None)"

fun bufferFromHex :: "string \<Rightarrow> buffer" where
  "bufferFromHex (a # b # rest) =
     (case (hex_value a, hex_value b) of
        (Some x, Some y) \<Rightarrow> word_of_nat (16 * x + y) # bufferFromHex rest
      | _ \<Rightarrow> [])"
| "bufferFromHex _ = []"

definition hex_digit_char :: "nat \<Rightarrow> char" where
  "hex_digit_char d = ''0123456789abcdef'' ! d"

definition byte_hex :: "byte \<Rightarrow> string" where
  "byte_hex b = [hex_digit_char (unat b div 16), hex_digit_char (unat b mod 16)]"

definition bufferToHex :: "buffer \<Rightarrow> string" where
  "bufferToHex bs = concat (map byte_hex bs)"

text \<open>A library call inside a handler: the thrown error, if any, propagates.\<close>

definition lib_call :: "string + 'a \<Rightarrow> ('a \<Rightarrow> error + 'b) \<Rightarrow> error + 'b" where
  "lib_call x f = (case x of Inl msg \<Rightarrow> Inl (Error msg) | Inr v \<Rightarrow> f v)"

section \<open>Utility tools (tools/utility.ts)\<close>

subsection \<open>verify_message\<close>

text \<open>
  \<^verbatim>\<open>
  function verifyMessage(args: { address: string; message: string; signature: string;
                                 network?: string; }) {
    const networkName = args.network || 'testnet';
    if (!validateNetwork(networkName)) { throw new Error(`Invalid network: ${networkName}`); }
    const network = getNetworkConfig(networkName);
    try {
      const messageBuffer = Buffer.from(args.message, 'utf8');
      const signatureBuffer = Buffer.from(args.signature, 'base64');
      if (signatureBuffer.length !== 65) {
        return { valid: false, error: 'Invalid signature length' };
      }
      return { valid: false,
               error: 'Message verification not fully implemented - use specialized libraries' };
    } catch (error) {
      return { valid: false, error: error instanceof Error ? error.message : 'Unknown error' };
    }
  }
  \<close>
  The base64 decoder of the run time is a parameter; on strings neither \<open>Buffer.from\<close>
  throws, so the \<open>catch\<close> branch is not taken.
\<close>

record message_verification =
  valid :: bool
  recovered :: "string option"
  error :: "string option"

definition verifyMessage ::
  "(string \<Rightarrow> buffer) \<Rightarrow> string \<Rightarrow> string \<Rightarrow> string \<Rightarrow> string option
     \<Rightarrow> error + message_verification" where
  "verifyMessage fromBase64 address message signature network =
     (case resolveNetwork network of
        Inl e \<Rightarrow> Inl e
      | Inr net \<Rightarrow>
          let signatureBuffer = fromBase64 signature
          in if length signatureBuffer \<noteq> 65
             then Inr \<lparr>valid = False, recovered = None,
                       error = Some ''Invalid signature length''\<rparr>
             else Inr \<lparr>valid = False, recovered = None,
                       error = Some
                         ''Message verification not fully implemented - use specialized libraries''\<rparr>)"

subsection \<open>The library calls of create_multisig and compile_script\<close>

text \<open>
  The functions of \<open>bitcoinjs-lib\<close> that the two handlers call. Each returns \<open>Inl msg\<close>
  when the library throws an error with message \<open>msg\<close>.
  \<^item> \<open>payments_p2ms m pubkeys network\<close>: \<open>payments.p2ms({m, pubkeys, network}).output\<close>;
  \<^item> \<open>p2sh_address s network\<close>: \<open>payments.p2sh({redeem: {output: s}, network}).address\<close>;
  \<^item> \<open>p2wsh_address s network\<close>: \<open>payments.p2wsh({redeem: {output: s}, network}).address\<close>;
  \<^item> \<open>p2sh_p2wsh_address s network\<close>: the address of \<open>payments.p2sh\<close> whose redeem is
    the \<open>p2wsh\<close> payment of \<open>s\<close>;
  \<^item> \<open>payments_p2pk\<close>, \<open>payments_p2pkh\<close>, \<open>payments_p2sh\<close>, \<open>payments_p2wpkh\<close>,
    \<open>payments_p2wsh\<close>: the \<open>output\<close> of the payment built from a key or a hash;
  \<^item> \<open>payments_embed data\<close>: \<open>payments.embed({data}).output\<close>;
  \<^item> \<open>script_fromASM\<close>, \<open>script_toASM\<close>: \<open>script.fromASM\<close>, \<open>script.toASM\<close>.
\<close>

record bitcoinjs =
  payments_p2ms :: "int \<Rightarrow> buffer list \<Rightarrow> network \<Rightarrow> string + buffer"
  p2sh_address :: "buffer \<Rightarrow> network \<Rightarrow> string + string"
  p2wsh_address :: "buffer \<Rightarrow> network \<Rightarrow> string + string"
  p2sh_p2wsh_address :: "buffer \<Rightarrow> network \<Rightarrow> string + string"
  payments_p2pk :: "buffer \<Rightarrow> network \<Rightarrow> string + buffer"
  payments_p2pkh :: "buffer \<Rightarrow> network \<Rightarrow> string + buffer"
  payments_p2sh :: "buffer \<Rightarrow> network \<Rightarrow> string + buffer"
  payments_p2wpkh :: "buffer \<Rightarrow> network \<Rightarrow> string + buffer"
  payments_p2wsh :: "buffer \<Rightarrow> network \<Rightarrow> string + buffer"
  payments_embed :: "buffer list \<Rightarrow> string + buffer"
  script_fromASM :: "string \<Rightarrow> string + buffer"
  script_toASM :: "buffer \<Rightarrow> string + string"

subsection \<open>create_multisig\<close>

text \<open>
  \<^verbatim>\<open>
  const addressType = args.addressType || 'p2sh';
  if (args.m <= 0 || args.m > args.publicKeys.length) {
    throw new Error('Invalid m value: must be between 1 and number of public keys');
  }
  if (args.publicKeys.length < 1 || args.publicKeys.length > 15) {
    throw new Error('Invalid number of public keys: must be between 1 and 15');
  }
  const pubkeys = args.publicKeys.map((pubkeyHex, index) => {
    if (!/^[0-9a-fA-F]+$/.test(pubkeyHex)) {
      throw new Error(`Invalid public key format at index ${index}: not hex`);
    }
    const pubkey = Buffer.from(pubkeyHex, 'hex');
    if (pubkey.length !== 33 && pubkey.length !== 65) {
      throw new Error(`Invalid public key length at index ${index}: got ${pubkey.length}, expected 33 or 65`);
    }
    return pubkey;
  });
  const redeemScript = bitcoin.payments.p2ms({ m: args.m, pubkeys, network }).output!;
  switch (addressType) {
    case 'p2sh': ...  case 'p2wsh': ...  case 'p2sh-p2wsh': ...
    default: throw new Error(`Unsupported address type: ${addressType}`);
  }
  return { m: args.m, n: args.publicKeys.length, publicKeys: args.publicKeys,
           redeemScript: redeemScript.toString('hex'), address, witnessScript, p2wsh };
  \<close>
\<close>

text \<open>The fields \<open>m\<close> and \<open>n\<close> of the result are \<open>result_m\<close> and \<open>result_n\<close>.\<close>

record multisig_info =
  result_m :: int
  result_n :: nat
  publicKeys :: "string list"
  redeemScript :: string
  address :: string
  witnessScript :: "string option"
  p2wsh :: "string option"

fun convert_pubkeys :: "nat \<Rightarrow> string list \<Rightarrow> error + buffer list" where
  "convert_pubkeys index [] = Inr []"
| "convert_pubkeys index (pubkeyHex # rest) =
     (if \<not> regex_test (RPlus (RClass hex_class)) pubkeyHex
      then Inl (Error (''Invalid public key format at index '' @ decimal index @ '': not hex''))
      else
        let pubkey = bufferFromHex pubkeyHex
        in if length pubkey \<noteq> 33 \<and> length pubkey \<noteq> 65
           then Inl (Error (''Invalid public key length at index '' @ decimal index
                             @ '': got '' @ decimal (length pubkey) @ '', expected 33 or 65''))
           else (case convert_pubkeys (Suc index) rest of
                   Inl e \<Rightarrow> Inl e
                 | Inr pubkeys \<Rightarrow> Inr (pubkey # pubkeys)))"

text \<open>The \<open>switch\<close> on the address type and the returned object.\<close>

definition multisig_result ::
  "bitcoinjs \<Rightarrow> network \<Rightarrow> string \<Rightarrow> int \<Rightarrow> string list \<Rightarrow> buffer
     \<Rightarrow> error + multisig_info" where
  "multisig_result lib net addressType m_arg keys script =
     (let result = (\<lambda>addr ws pw.
            \<lparr>result_m = m_arg, result_n = length keys, publicKeys = keys,
             redeemScript = bufferToHex script, address = addr,
             witnessScript = ws, p2wsh = pw\<rparr>)
      in if addressType = ''p2sh''
         then lib_call (p2sh_address lib script net) (\<lambda>addr.
                Inr (result addr None None))
         else if addressType = ''p2wsh''
         then lib_call (p2wsh_address lib script net) (\<lambda>addr.
                Inr (result addr (Some (bufferToHex script)) None))
         else if addressType = ''p2sh-p2wsh''
         then lib_call (p2wsh_address lib script net) (\<lambda>inner.
                lib_call (p2sh_p2wsh_address lib script net) (\<lambda>addr.
                  Inr (result addr (Some (bufferToHex script)) (Some inner))))
         else Inl (Error (''Unsupported address type: '' @ addressType)))"

definition createMultisig ::
  "bitcoinjs \<Rightarrow> int \<Rightarrow> string list \<Rightarrow> string option \<Rightarrow> string option
     \<Rightarrow> error + multisig_info" where
  "createMultisig lib m_arg keys network addressType_arg =
     (case resolveNetwork network of
        Inl e \<Rightarrow> Inl e
      | Inr net \<Rightarrow>
          let addressType = or_default addressType_arg ''p2sh''
          in if m_arg \<le> 0 \<or> m_arg > int (length keys)
             then Inl (Error ''Invalid m value: must be between 1 and number of public keys'')
             else if length keys < 1 \<or> length keys > 15
             then Inl (Error ''Invalid number of public keys: must be between 1 and 15'')
             else
               (case convert_pubkeys 0 keys of
                  Inl e \<Rightarrow> Inl e
                | Inr pubkeys \<Rightarrow>
                    lib_call (payments_p2ms lib m_arg pubkeys net)
                      (multisig_result lib net addressType m_arg keys)))"

text \<open>
  What the two checks inside \<open>map\<close> accept of a key: a non-empty string of hex digits
  that decodes to 33 or to 65 bytes.
\<close>

definition key_accepted :: "string \<Rightarrow> bool" where
  "key_accepted k \<longleftrightarrow>
     k \<noteq> [] \<and> list_all is_hex_digit k \<and> (length k div 2 = 33 \<or> length k div 2 = 65)"

subsection \<open>compile_script\<close>

text \<open>
  \<^verbatim>\<open>
  if (args.scriptAsm) {
    try {
      const script = bitcoin.script.fromASM(args.scriptAsm);
      return { type: 'custom', hex: script.toString('hex'), asm: args.scriptAsm };
    } catch (error) {
      throw new Error(`Failed to compile ASM script: ${...error.message...}`);
    }
  }
  let script: Buffer;
  let scriptType = args.scriptType || 'p2pkh';
  let addresses, p2sh, p2wsh;
  switch (scriptType) {
    case 'p2pk':
      if (!args.publicKey) throw new Error('Public key required for P2PK script');
      script = bitcoin.payments.p2pk({ pubkey: Buffer.from(args.publicKey, 'hex'), network }).output!;
      break;
    ... (p2pkh, p2sh, p2wpkh, p2wsh alike, from publicKeyHash or scriptHash) ...
    case 'multisig':
      if (!args.multisigConfig) throw new Error('Multisig configuration required for multisig script');
      const pubkeys = args.multisigConfig.publicKeys.map(pk => {
        const buf = Buffer.from(pk, 'hex');
        if (buf.length !== 33 && buf.length !== 65) {
          throw new Error(`Invalid public key length: ${buf.length}`);
        }
        return buf;
      });
      const multisig = bitcoin.payments.p2ms({ m: args.multisigConfig.m, pubkeys, network });
      script = multisig.output!;
      const p2shPayment = bitcoin.payments.p2sh({ redeem: multisig, network });
      const p2wshPayment = bitcoin.payments.p2wsh({ redeem: multisig, network });
      p2sh = p2shPayment.address!;
      p2wsh = p2wshPayment.address!;
      break;
    case 'nulldata':
      if (!args.data) throw new Error('Data required for OP_RETURN script');
      const data = Buffer.from(args.data, 'hex');
      if (data.length > 80) throw new Error('OP_RETURN data too large (max 80 bytes)');
      script = bitcoin.payments.embed({ data: [data] }).output!;
      break;
    default:
      throw new Error(`Unsupported script type: ${scriptType}`);
  }
  return { type: scriptType, hex: script.toString('hex'), asm: bitcoin.script.toASM(script),
           addresses, p2sh, p2wsh };
  \<close>
  The fields of the result carry the prefix \<open>script_\<close>.
\<close>

record script_info =
  script_type :: string
  script_hex :: string
  script_asm :: string
  script_addresses :: "string list option"
  script_p2sh :: "string option"
  script_p2wsh :: "string option"

text \<open>An optional string that is present and not empty (a truthy argument).\<close>

definition present :: "string option \<Rightarrow> string option" where
  "present x = (case x of None \<Rightarrow> None | Some s \<Rightarrow> if s = [] then None else Some s)"

fun config_pubkeys :: "string list \<Rightarrow> error + buffer list" where
  "config_pubkeys [] = Inr []"
| "config_pubkeys (pk # rest) =
     (let buf = bufferFromHex pk
      in if length buf \<noteq> 33 \<and> length buf \<noteq> 65
         then Inl (Error (''Invalid public key length: '' @ decimal (length buf)))
         else (case config_pubkeys rest of
                 Inl e \<Rightarrow> Inl e
               | Inr pubkeys \<Rightarrow> Inr (buf # pubkeys)))"

text \<open>The \<open>return\<close> after the \<open>switch\<close>.\<close>

definition script_result ::
  "bitcoinjs \<Rightarrow> string \<Rightarrow> string option \<Rightarrow> string option \<Rightarrow> buffer \<Rightarrow> error + script_info" where
  "script_result lib scriptType p2sh_arg p2wsh_arg script =
     lib_call (script_toASM lib script) (\<lambda>asm.
       Inr \<lparr>script_type = scriptType, script_hex = bufferToHex script, script_asm = asm,
            script_addresses = None, script_p2sh = p2sh_arg, script_p2wsh = p2wsh_arg\<rparr>)"

text \<open>A branch that needs one hex argument and builds the script from its bytes.\<close>

definition from_argument ::
  "bitcoinjs \<Rightarrow> string \<Rightarrow> string option \<Rightarrow> string \<Rightarrow> (buffer \<Rightarrow> string + buffer)
     \<Rightarrow> error + script_info" where
  "from_argument lib scriptType arg missing build =
     (case present arg of
        None \<Rightarrow> Inl (Error missing)
      | Some h \<Rightarrow> lib_call (build (bufferFromHex h)) (script_result lib scriptType None None))"

definition compileScript ::
  "bitcoinjs \<Rightarrow> string option \<Rightarrow> string option \<Rightarrow> string option \<Rightarrow> string option
     \<Rightarrow> string option \<Rightarrow> string option \<Rightarrow> (int \<times> string list) option \<Rightarrow> string option
     \<Rightarrow> error + script_info" where
  "compileScript lib scriptAsm scriptType_arg publicKey publicKeyHash scriptHash data
       multisigConfig network =
     (case resolveNetwork network of
        Inl e \<Rightarrow> Inl e
      | Inr net \<Rightarrow>
          (case present scriptAsm of
             Some asm \<Rightarrow>
               (case script_fromASM lib asm of
                  Inl msg \<Rightarrow> Inl (Error (''Failed to compile ASM script: '' @ msg))
                | Inr script \<Rightarrow>
                    Inr \<lparr>script_type = ''custom'', script_hex = bufferToHex script,
                         script_asm = asm, script_addresses = None, script_p2sh = None,
                         script_p2wsh = None\<rparr>)
           | None \<Rightarrow>
               let scriptType = or_default scriptType_arg ''p2pkh''
               in if scriptType = ''p2pk''
                  then from_argument lib scriptType publicKey
                         ''Public key required for P2PK script''
                         (\<lambda>b. payments_p2pk lib b net)
                  else if scriptType = ''p2pkh''
                  then from_argument lib scriptType publicKeyHash
                         ''Public key hash required for P2PKH script''
                         (\<lambda>b. payments_p2pkh lib b net)
                  else if scriptType = ''p2sh''
                  then from_argument lib scriptType scriptHash
                         ''Script hash required for P2SH script''
                         (\<lambda>b. payments_p2sh lib b net)
                  else if scriptType = ''p2wpkh''
                  then from_argument lib scriptType publicKeyHash
                         ''Public key hash required for P2WPKH script''
                         (\<lambda>b. payments_p2wpkh lib b net)
                  else if scriptType = ''p2wsh''
                  then from_argument lib scriptType scriptHash
                         ''Script hash required for P2WSH script''
                         (\<lambda>b. payments_p2wsh lib b net)
                  else if scriptType = ''multisig''
                  then (case multisigConfig of
                          None \<Rightarrow>
                            Inl (Error ''Multisig configuration required for multisig script'')
                        | Some (config_m, config_keys) \<Rightarrow>
                            (case config_pubkeys config_keys of
                               Inl e \<Rightarrow> Inl e
                             | Inr pubkeys \<Rightarrow>
                                 lib_call (payments_p2ms lib config_m pubkeys net) (\<lambda>script.
                                   lib_call (p2sh_address lib script net) (\<lambda>a1.
                                     lib_call (p2wsh_address lib script net) (\<lambda>a2.
                                       script_result lib scriptType (Some a1) (Some a2) script)))))
                  else if scriptType = ''nulldata''
                  then (case present data of
                          None \<Rightarrow> Inl (Error ''Data required for OP_RETURN script'')
                        | Some h \<Rightarrow>
                            let bytes = bufferFromHex h
                            in if length bytes > 80
                               then Inl (Error ''OP_RETURN data too large (max 80 bytes)'')
                               else lib_call (payments_embed lib [bytes])
                                      (script_result lib scriptType None None))
                  else Inl (Error (''Unsupported script type: '' @ scriptType))))"

text \<open>
  A stand-in for the library, to run the handlers on concrete inputs: the multisig script
  is the count byte followed by the keys, the data script is \<open>OP_RETURN\<close> (\<open>0x6a\<close>)
  followed by the data, the other payments return their argument, and addresses and
  assembly text are fixed strings.
\<close>

definition stub_lib :: bitcoinjs where
  "stub_lib =
     \<lparr>payments_p2ms = (\<lambda>k keys net. Inr (word_of_int (80 + k) # concat keys)),
      p2sh_address = (\<lambda>script net. Inr ''2N-address''),
      p2wsh_address = (\<lambda>script net. Inr ''tb1q-address''),
      p2sh_p2wsh_address = (\<lambda>script net. Inr ''2M-address''),
      payments_p2pk = (\<lambda>b net. Inr b),
      payments_p2pkh = (\<lambda>b net. Inr b),
      payments_p2sh = (\<lambda>b net. Inr b),
      payments_p2wpkh = (\<lambda>b net. Inr b),
      payments_p2wsh = (\<lambda>b net. Inr b),
      payments_embed = (\<lambda>chunks. Inr (106 # concat chunks)),
      script_fromASM = (\<lambda>asm. Inl ''unknown opcode''),
      script_toASM = (\<lambda>script. Inr ''OP_RETURN ...'')\<rparr>"

section \<open>Transaction validation (tools/transaction.ts)\<close>

text \<open>
  The parsed transaction of the library: of an input the hash and the index of the
  previous output, of an output its value (the source's \<open>input.hash\<close>, \<open>input.index\<close>,
  \<open>output.value\<close>). \<open>Transaction.fromHex\<close>, \<open>getId\<close> and \<open>byteLength\<close> are library
  calls.
\<close>

record tx_input =
  input_hash :: buffer
  input_index :: nat

record tx_output =
  output_value :: int

record transaction =
  ins :: "tx_input list"
  outs :: "tx_output list"

record transaction_lib =
  transaction_fromHex :: "string \<Rightarrow> string + transaction"
  transaction_getId :: "transaction \<Rightarrow> string"
  transaction_byteLength :: "transaction \<Rightarrow> nat"

text \<open>
  \<^verbatim>\<open>
  function validateTransaction(args: { hex: string; network?: string }) {
    const networkName = args.network || 'testnet';
    if (!validateNetwork(networkName)) { throw new Error(`Invalid network: ${networkName}`); }
    if (!isValidHex(args.hex)) { return { valid: false, errors: ['Invalid hex format'] }; }
    try {
      const tx = bitcoin.Transaction.fromHex(args.hex);
      const errors: string[] = [];
      if (tx.ins.length === 0) { errors.push('Transaction has no inputs'); }
      if (tx.outs.length === 0) { errors.push('Transaction has no outputs'); }
      const inputIds = tx.ins.map(input =>
        Buffer.from(input.hash).reverse().toString('hex') + ':' + input.index);
      const uniqueInputs = new Set(inputIds);
      if (inputIds.length !== uniqueInputs.size) { errors.push('Transaction has duplicate inputs'); }
      let totalOutput = 0;
      for (const output of tx.outs) {
        if (output.value < 0) { errors.push('Negative output value found'); }
        totalOutput += output.value;
      }
      if (totalOutput > 21000000 * 100000000) {
        errors.push('Total output exceeds maximum Bitcoin supply');
      }
      return { valid: errors.length === 0, txid: tx.getId(), size: tx.byteLength(),
               errors: errors.length > 0 ? errors : undefined };
    } catch (error) {
      return { valid: false, errors: [`Failed to parse transaction: ${...error.message...}`] };
    }
  }
  \<close>
  The fields of the result carry the prefix \<open>tx_\<close>. A \<open>Set\<close> of strings keeps one copy
  of each string, so its size is the length of the list without duplicates.
\<close>

record validation_result =
  tx_valid :: bool
  tx_txid :: "string option"
  tx_size :: "nat option"
  tx_errors :: "string list option"

definition inputId :: "tx_input \<Rightarrow> string" where
  "inputId input = bufferToHex (rev (input_hash input)) @ '':'' @ decimal (input_index input)"

definition check_outputs :: "string list \<times> int \<Rightarrow> tx_output list \<Rightarrow> string list \<times> int" where
  "check_outputs start outputs =
     foldl (\<lambda>(errors, totalOutput) output.
              ((if output_value output < 0 then errors @ [''Negative output value found'']
                else errors),
               totalOutput + output_value output))
       start outputs"

definition check_transaction :: "transaction \<Rightarrow> string list" where
  "check_transaction tx =
     (let errors0 = [];
          errors1 = (if length (ins tx) = 0 then errors0 @ [''Transaction has no inputs'']
                     else errors0);
          errors2 = (if length (outs tx) = 0 then errors1 @ [''Transaction has no outputs'']
                     else errors1);
          inputIds = map inputId (ins tx);
          uniqueInputs = remdups inputIds;
          errors3 = (if length inputIds \<noteq> length uniqueInputs
                     then errors2 @ [''Transaction has duplicate inputs'']
                     else errors2);
          (errors4, totalOutput) = check_outputs (errors3, 0) (outs tx)
      in if totalOutput > 21000000 * 100000000
         then errors4 @ [''Total output exceeds maximum Bitcoin supply'']
         else errors4)"

definition validateTransaction ::
  "transaction_lib \<Rightarrow> string \<Rightarrow> string option \<Rightarrow> error + validation_result" where
  "validateTransaction lib hex network =
     (let networkName = or_default network ''testnet''
      in if \<not> validateNetwork networkName
         then Inl (Error (''Invalid network: '' @ networkName))
         else if \<not> isValidHex hex
         then Inr \<lparr>tx_valid = False, tx_txid = None, tx_size = None,
                   tx_errors = Some [''Invalid hex format'']\<rparr>
         else
           (case transaction_fromHex lib hex of
              Inl msg \<Rightarrow>
                Inr \<lparr>tx_valid = False, tx_txid = None, tx_size = None,
                     tx_errors = Some [''Failed to parse transaction: '' @ msg]\<rparr>
            | Inr tx \<Rightarrow>
                let errors = check_transaction tx
                in Inr \<lparr>tx_valid = (length errors = 0),
                        tx_txid = Some (transaction_getId lib tx),
                        tx_size = Some (transaction_byteLength lib tx),
                        tx_errors = (if length errors > 0 then Some errors else None)\<rparr>))"

text \<open>The value of a string of decimal digits, read from the left.\<close>

definition digit_value :: "char \<Rightarrow> nat" where
  "digit_value c = of_char c - 48"

definition digits_value :: "string \<Rightarrow> nat" where
  "digits_value s = foldl (\<lambda>acc c. 10 * acc + digit_value c) 0 s"

text \<open>The violations that the claim names, as properties of the transaction.\<close>

definition duplicate_inputs :: "transaction \<Rightarrow> bool" where
  "duplicate_inputs tx \<longleftrightarrow>
     \<not> distinct (map (\<lambda>input. (input_hash input, input_index input)) (ins tx))"

definition negative_output :: "transaction \<Rightarrow> bool" where
  "negative_output tx \<longleftrightarrow> list_ex (\<lambda>output. output_value output < 0) (outs tx)"

definition total_output :: "transaction \<Rightarrow> int" where
  "total_output tx = sum_list (map output_value (outs tx))"

text \<open>
  A transaction that spends the same previous output twice and has a negative output
  and a total above the supply, with a stand-in parser that returns it.
\<close>

definition example_tx :: transaction where
  "example_tx =
     \<lparr>ins = [\<lparr>input_hash = replicate 32 1, input_index = 0\<rparr>,
              \<lparr>input_hash = replicate 32 1, input_index = 0\<rparr>],
      outs = [\<lparr>output_value = - 5\<rparr>, \<lparr>output_value = 2100000000000006\<rparr>]\<rparr>"

definition example_tx_lib :: transaction_lib where
  "example_tx_lib =
     \<lparr>transaction_fromHex = (\<lambda>hex. Inr example_tx),
      transaction_getId = (\<lambda>tx. ''txid''),
      transaction_byteLength = (\<lambda>tx. 10)\<rparr>"

section \<open>Key derivation (tools/utility.ts)\<close>























section \<open>Properties\<close>

subsection \<open>The matcher decides the language\<close>

lemma nullable_lang: "nullable r \<longleftrightarrow> [] \<in> lang r"
  by (induction r) (auto simp: conc_def intro: kstar_nil)

lemma kstar_Cons:
  "c # w \<in> kstar A \<longleftrightarrow> (\<exists>u v. w = u @ v \<and> c # u \<in> A \<and> v \<in> kstar A)"
proof
  have "x \<in> kstar A \<Longrightarrow> x = c # w \<Longrightarrow> \<exists>u v. w = u @ v \<and> c # u \<in> A \<and> v \<in> kstar A"
    for x
  proof (induction arbitrary: w rule: kstar.induct)
    case kstar_nil
    then show ?case by simp
  next
    case (kstar_app u v)
    show ?case
    proof (cases u)
      case Nil
      with kstar_app show ?thesis by simp
    next
      case (Cons a u')
      with kstar_app.prems have "a = c" and "w = u' @ v" by simp_all
      with Cons kstar_app.hyps show ?thesis by blast
    qed
  qed
  then show "c # w \<in> kstar A \<Longrightarrow> \<exists>u v. w = u @ v \<and> c # u \<in> A \<and> v \<in> kstar A"
    by blast
next
  assume "\<exists>u v. w = u @ v \<and> c # u \<in> A \<and> v \<in> kstar A"
  then obtain u v where "w = u @ v" "c # u \<in> A" "v \<in> kstar A" by blast
  then show "c # w \<in> kstar A"
    using kstar.kstar_app [of "c # u" A v] by simp
qed

lemma conc_Cons:
  "c # w \<in> conc A B \<longleftrightarrow>
     (\<exists>u v. w = u @ v \<and> c # u \<in> A \<and> v \<in> B) \<or> ([] \<in> A \<and> c # w \<in> B)"
  unfolding conc_def by (auto simp: Cons_eq_append_conv)

lemma lang_deriv: "w \<in> lang (deriv c r) \<longleftrightarrow> c # w \<in> lang r"
proof (induction r arbitrary: w)
  case (RSeq a b)
  then show ?case
    by (auto simp: conc_Cons nullable_lang) (auto simp: conc_def)
next
  case (RStar a)
  then show ?case
    by (auto simp: kstar_Cons conc_def)
qed auto

lemma regex_test_lang: "regex_test r s \<longleftrightarrow> s \<in> lang r"
  unfolding regex_test_def
  by (induction s arbitrary: r) (simp_all add: nullable_lang lang_deriv)

lemma kstar_class: "s \<in> kstar {[c] | c. P c} \<longleftrightarrow> list_all P s"
  by (induction s) (auto simp: kstar_Cons intro: kstar_nil)

subsection \<open>Decimal digits\<close>

lemma decimal_digit [simp]: "n < 10 \<Longrightarrow> decimal n = [digit_char n]"
  by (subst decimal.simps) simp

lemma decimal_step [simp]:
  "10 \<le> n \<Longrightarrow> decimal n = decimal (n div 10) @ [digit_char (n mod 10)]"
  by (subst decimal.simps) simp

lemma replicate_numeral: "replicate (numeral k) x = x # replicate (pred_numeral k) x"
  by (simp add: numeral_eq_Suc)

subsection \<open>Hex strings\<close>

lemma in_hex_class: "in_class c hex_class \<longleftrightarrow> is_hex_digit c"
proof -
  define n :: nat where "n = of_char c"
  have eq: "(c = d) = (n = of_char d)" for d
    by (simp add: n_def)
  have "in_class c hex_class \<longleftrightarrow>
      (48 \<le> n \<and> n \<le> 57) \<or> (97 \<le> n \<and> n \<le> 102) \<or> (65 \<le> n \<and> n \<le> 70)"
    by (simp add: in_class_def hex_class_def in_range_def n_def)
  moreover have "is_hex_digit c \<longleftrightarrow>
      n \<in> {48,49,50,51,52,53,54,55,56,57,97,98,99,100,101,102,65,66,67,68,69,70}"
    unfolding is_hex_digit_def by (simp add: eq)
  ultimately show ?thesis
    by (simp only: insert_iff empty_iff) arith
qed

lemma hex_star_iff: "regex_test (RStar (RClass hex_class)) s \<longleftrightarrow> list_all is_hex_digit s"
  by (simp add: regex_test_lang kstar_class in_hex_class)

text \<open>
  C9. For every string \<open>s\<close>, \<open>isValidHex s\<close> is true if and only if every character of
  \<open>s\<close> is a hex digit and the length of \<open>s\<close> is even; the zero-length string is valid.
\<close>

theorem isValidHex_iff:
  "(isValidHex s \<longleftrightarrow> (\<forall>c \<in> set s. is_hex_digit c) \<and> even (length s)) \<and> isValidHex []"
  by (simp add: isValidHex_def hex_star_iff list_all_iff even_iff_mod_2_eq_zero)

theorem isValidHex_iff_witness:
  "isValidHex ''0aF9'' \<and> \<not> isValidHex ''0aF'' \<and> \<not> isValidHex ''0g''"
  using isValidHex_iff [of "''0aF9''"] isValidHex_iff [of "''0aF''"] isValidHex_iff [of "''0g''"]
  by (simp add: is_hex_digit_def)

subsection \<open>Network names\<close>

lemma char_eq_code: "(a = b) = ((of_char a :: nat) = of_char b)"
  by simp

lemma toLowerCase_char_eq:
  assumes "is_lower_letter b"
  shows "toLowerCase_char a = b \<longleftrightarrow> a = b \<or> a = ascii_upper b"
proof -
  define n :: nat where "n = of_char a"
  define k :: nat where "k = of_char b"
  have n: "n < 256" and k: "97 \<le> k" "k \<le> 122"
    using assms by (simp_all add: n_def k_def is_lower_letter_def)
  have up: "(of_char (ascii_upper b) :: nat) = k - 32"
    using k by (simp add: ascii_upper_def k_def [symmetric])
  have lo: "(of_char (toLowerCase_char a) :: nat) =
      (if (65 \<le> n \<and> n \<le> 90) \<or> (192 \<le> n \<and> n \<le> 222 \<and> n \<noteq> 215) then n + 32 else n)"
    using n by (simp add: toLowerCase_char_def n_def [symmetric] Let_def)
  show ?thesis
    unfolding char_eq_code [of _ b] char_eq_code [of a] up lo
    unfolding n_def [symmetric] k_def [symmetric]
    using n k by auto
qed

lemma toLowerCase_eq:
  "list_all is_lower_letter t \<Longrightarrow> toLowerCase s = t \<longleftrightarrow> equal_ignoring_case s t"
  unfolding toLowerCase_def equal_ignoring_case_def
proof (induction s arbitrary: t)
  case Nil
  then show ?case by auto
next
  case (Cons a s)
  then show ?case
    by (cases t) (auto simp: toLowerCase_char_eq)
qed

lemma network_names_lower:
  "list_all is_lower_letter ''mainnet''"
  "list_all is_lower_letter ''testnet''"
  "list_all is_lower_letter ''regtest''"
  by (simp_all add: is_lower_letter_def)

lemma validateNetwork_lower:
  "validateNetwork networkName \<longleftrightarrow>
     toLowerCase networkName = ''mainnet'' \<or> toLowerCase networkName = ''testnet''
       \<or> toLowerCase networkName = ''regtest''"
  by (simp add: validateNetwork_def)

lemma getNetworkConfig_validateNetwork:
  "validateNetwork networkName \<Longrightarrow> \<exists>n. getNetworkConfig networkName = Inr n"
  by (auto simp: validateNetwork_lower getNetworkConfig_def)

text \<open>
  C10. For every string \<open>networkName\<close>, \<open>getNetworkConfig networkName\<close> succeeds (returns a network
  parameter set) if and only if \<open>validateNetwork networkName\<close> is true, which holds exactly when
  \<open>networkName\<close> is, ignoring case, one of \<open>mainnet\<close>, \<open>testnet\<close>, \<open>regtest\<close>; for any other
  string \<open>getNetworkConfig\<close> throws and \<open>validateNetwork\<close> is false.
\<close>

theorem network_resolution_round_trip:
  "((\<exists>n. getNetworkConfig networkName = Inr n) \<longleftrightarrow> validateNetwork networkName)
   \<and> (validateNetwork networkName \<longleftrightarrow>
        equal_ignoring_case networkName ''mainnet'' \<or> equal_ignoring_case networkName ''testnet''
          \<or> equal_ignoring_case networkName ''regtest'')
   \<and> (\<not> validateNetwork networkName \<longleftrightarrow>
        getNetworkConfig networkName = Inl (Error (''Unsupported network: '' @ networkName)))"
proof (intro conjI)
  show "(\<exists>n. getNetworkConfig networkName = Inr n) \<longleftrightarrow> validateNetwork networkName"
    by (auto simp: validateNetwork_lower getNetworkConfig_def Let_def split: if_splits)
  show "validateNetwork networkName \<longleftrightarrow>
     equal_ignoring_case networkName ''mainnet'' \<or> equal_ignoring_case networkName ''testnet''
       \<or> equal_ignoring_case networkName ''regtest''"
    by (simp only: validateNetwork_lower toLowerCase_eq [OF network_names_lower(1)]
        toLowerCase_eq [OF network_names_lower(2)] toLowerCase_eq [OF network_names_lower(3)])
  show "\<not> validateNetwork networkName \<longleftrightarrow>
     getNetworkConfig networkName = Inl (Error (''Unsupported network: '' @ networkName))"
    by (auto simp: validateNetwork_lower getNetworkConfig_def Let_def)
qed

theorem network_resolution_round_trip_witness:
  "validateNetwork ''TestNet'' \<and> getNetworkConfig ''TestNet'' = Inr Testnet
     \<and> \<not> validateNetwork ''signet''
     \<and> getNetworkConfig ''signet'' = Inl (Error ''Unsupported network: signet'')"
proof -
  note t = network_resolution_round_trip [of "''TestNet''"]
  note s = network_resolution_round_trip [of "''signet''"]
  have "equal_ignoring_case ''TestNet'' ''testnet''"
    by code_simp
  with t have a: "validateNetwork ''TestNet''"
    by blast
  have "\<not> equal_ignoring_case ''signet'' ''mainnet''"
    and "\<not> equal_ignoring_case ''signet'' ''testnet''"
    and "\<not> equal_ignoring_case ''signet'' ''regtest''"
    by code_simp+
  with s have b: "\<not> validateNetwork ''signet''"
    by blast
  have c: "getNetworkConfig ''TestNet'' = Inr Testnet"
    by code_simp
  from s b have d: "getNetworkConfig ''signet'' = Inl (Error (''Unsupported network: '' @ ''signet''))"
    by blast
  from a b c d show ?thesis
    by simp
qed

subsection \<open>Tool registries\<close>

lemma fold_upd_other:
  "n \<notin> name ` set ts \<Longrightarrow> fold (\<lambda>t tools. tools(name t \<mapsto> t)) ts m n = m n"
  by (induction ts arbitrary: m) auto

lemma fold_upd_distinct:
  "distinct (map name ts) \<Longrightarrow> t \<in> set ts \<Longrightarrow>
     fold (\<lambda>t tools. tools(name t \<mapsto> t)) ts m (name t) = Some t"
  by (induction ts arbitrary: m) (auto simp: fold_upd_other)

lemma allTools_names:
  "map name allTools =
    [''generate_address'', ''validate_address'', ''decode_address'', ''address_from_script'',
     ''create_transaction'', ''decode_transaction'', ''sign_transaction'',
     ''estimate_transaction_fee'', ''broadcast_transaction'',
     ''create_psbt'', ''decode_psbt'', ''sign_psbt'', ''finalize_psbt'', ''combine_psbts'',
     ''update_psbt'',
     ''generate_keypair'', ''create_multisig'', ''compile_script'', ''hash_message'',
     ''derive_child_key'', ''verify_message'']"
  by (simp add: allTools_def addressTools_def transactionTools_def psbtTools_def utilityTools_def)

lemma allTools_distinct: "distinct (map name allTools)"
  unfolding allTools_names by simp

lemma registry_names:
  "map name addressTools =
     [''generate_address'', ''validate_address'', ''decode_address'', ''address_from_script'']"
  "map name transactionTools =
     [''create_transaction'', ''decode_transaction'', ''sign_transaction'',
      ''estimate_transaction_fee'', ''broadcast_transaction'']"
  "map name psbtTools =
     [''create_psbt'', ''decode_psbt'', ''sign_psbt'', ''finalize_psbt'', ''combine_psbts'',
      ''update_psbt'']"
  "map name utilityTools =
     [''generate_keypair'', ''create_multisig'', ''compile_script'', ''hash_message'',
      ''derive_child_key'', ''verify_message'']"
  by (simp_all add: addressTools_def transactionTools_def psbtTools_def utilityTools_def)

lemma declares_iff: "declares registry n \<longleftrightarrow> n \<in> set (map name registry)"
  by (auto simp: declares_def find_None_iff)

lemma setupTools_Some: "t \<in> set allTools \<Longrightarrow> setupTools (name t) = Some t"
  unfolding setupTools_def by (rule fold_upd_distinct [OF allTools_distinct])

lemma route_Some:
  "setupTools n = Some t \<Longrightarrow> route n =
     (if n \<in> set (map name addressTools) then Inr AddressTool
      else if n \<in> set (map name transactionTools) then Inr TransactionTool
      else if n \<in> set (map name psbtTools) then Inr PSBTTool
      else if n \<in> set (map name utilityTools) then Inr UtilityTool
      else Inl (Error (''No handler found for tool: '' @ n)))"
  by (simp add: route_def declares_iff)

lemma route_registry:
  assumes "t \<in> set registry" and "set registry \<subseteq> set allTools"
  shows "route (name t) =
     (if name t \<in> set (map name addressTools) then Inr AddressTool
      else if name t \<in> set (map name transactionTools) then Inr TransactionTool
      else if name t \<in> set (map name psbtTools) then Inr PSBTTool
      else if name t \<in> set (map name utilityTools) then Inr UtilityTool
      else Inl (Error (''No handler found for tool: '' @ name t)))"
    and "name t \<in> set (map name registry)"
proof -
  from assms have "t \<in> set allTools" by blast
  then show "route (name t) =
     (if name t \<in> set (map name addressTools) then Inr AddressTool
      else if name t \<in> set (map name transactionTools) then Inr TransactionTool
      else if name t \<in> set (map name psbtTools) then Inr PSBTTool
      else if name t \<in> set (map name utilityTools) then Inr UtilityTool
      else Inl (Error (''No handler found for tool: '' @ name t)))"
    by (rule route_Some [OF setupTools_Some])
  from assms(1) show "name t \<in> set (map name registry)" by simp
qed

text \<open>
  C1. Across the four registries combined every descriptor name occurs exactly once, so
  the map built by \<open>setupTools\<close> from the merged list sends the name of every registry
  entry to that entry (no entry is shadowed by a later one), and the request handler
  routes the name of every entry to the handler of the entry's own registry.
\<close>

theorem tool_names_unique:
  "distinct (map name allTools)
   \<and> (\<forall>t \<in> set allTools. setupTools (name t) = Some t)
   \<and> (\<forall>t \<in> set addressTools. route (name t) = Inr AddressTool)
   \<and> (\<forall>t \<in> set transactionTools. route (name t) = Inr TransactionTool)
   \<and> (\<forall>t \<in> set psbtTools. route (name t) = Inr PSBTTool)
   \<and> (\<forall>t \<in> set utilityTools. route (name t) = Inr UtilityTool)"
proof (intro conjI ballI)
  show "distinct (map name allTools)"
    by (rule allTools_distinct)
  show "setupTools (name t) = Some t" if "t \<in> set allTools" for t
    using that by (rule setupTools_Some)
  show "route (name t) = Inr AddressTool" if "t \<in> set addressTools" for t
  proof -
    have "set addressTools \<subseteq> set allTools" by (auto simp: allTools_def)
    from route_registry [OF that this] show ?thesis
      unfolding registry_names by auto
  qed
  show "route (name t) = Inr TransactionTool" if "t \<in> set transactionTools" for t
  proof -
    have "set transactionTools \<subseteq> set allTools" by (auto simp: allTools_def)
    from route_registry [OF that this] show ?thesis
      unfolding registry_names by auto
  qed
  show "route (name t) = Inr PSBTTool" if "t \<in> set psbtTools" for t
  proof -
    have "set psbtTools \<subseteq> set allTools" by (auto simp: allTools_def)
    from route_registry [OF that this] show ?thesis
      unfolding registry_names by auto
  qed
  show "route (name t) = Inr UtilityTool" if "t \<in> set utilityTools" for t
  proof -
    have "set utilityTools \<subseteq> set allTools" by (auto simp: allTools_def)
    from route_registry [OF that this] show ?thesis
      unfolding registry_names by auto
  qed
qed

theorem tool_names_unique_witness:
  "route ''sign_psbt'' = Inr PSBTTool \<and> route ''verify_message'' = Inr UtilityTool
   \<and> (\<exists>t. setupTools ''decode_transaction'' = Some t \<and> name t = ''decode_transaction'')"
proof -
  define t1 where "t1 = psbtTools ! 2"
  define t2 where "t2 = utilityTools ! 5"
  define t3 where "t3 = transactionTools ! 1"
  have 1: "t1 \<in> set psbtTools" and n1: "name t1 = ''sign_psbt''"
    by (simp_all add: t1_def psbtTools_def)
  have 2: "t2 \<in> set utilityTools" and n2: "name t2 = ''verify_message''"
    by (simp_all add: t2_def utilityTools_def)
  have 3: "t3 \<in> set allTools" and n3: "name t3 = ''decode_transaction''"
    by (simp_all add: t3_def allTools_def transactionTools_def)
  from tool_names_unique 1 have "route (name t1) = Inr PSBTTool" by blast
  moreover from tool_names_unique 2 have "route (name t2) = Inr UtilityTool" by blast
  moreover from tool_names_unique 3 have "setupTools (name t3) = Some t3" by blast
  ultimately show ?thesis
    unfolding n1 n2 n3 using n3 by blast
qed

subsection \<open>PSBT input format\<close>

lemma in_equals_class: "in_class c [(CHR ''='', CHR ''='')] \<longleftrightarrow> c = CHR ''=''"
proof -
  have "(c = CHR ''='') = ((of_char c :: nat) = of_char (CHR ''=''))"
    by (simp only: of_char_eq_iff)
  then show ?thesis
    by (auto simp: in_class_def in_range_def)
qed

lemma base64_pattern_iff:
  "regex_test base64_pattern s \<longleftrightarrow>
     (\<exists>u v. s = u @ v \<and> list_all (\<lambda>c. in_class c base64_class) u
        \<and> (v = [] \<or> v = ''='' \<or> v = ''==''))"
  unfolding regex_test_lang base64_pattern_def
  by (auto simp: numeral_2_eq_2 conc_def kstar_class in_equals_class)

lemma hex_digit_base64: "is_hex_digit c \<Longrightarrow> in_class c base64_class"
  unfolding is_hex_digit_def
  by (auto simp: in_class_def in_range_def base64_class_def)

lemma hex_matches_base64: "list_all is_hex_digit s \<Longrightarrow> regex_test base64_pattern s"
  unfolding base64_pattern_iff
  by (rule exI [of _ s], rule exI [of _ "[]"]) (auto simp: list_all_iff hex_digit_base64)

lemma parse_psbt_hex:
  "list_all is_hex_digit s \<Longrightarrow>
     parse_psbt fromBase fromHex prefix s net =
       (case fromBase s net of Inl msg \<Rightarrow> Inl (Error (prefix @ msg)) | Inr p \<Rightarrow> Inr p)"
  using hex_matches_base64 [of s] by (simp add: parse_psbt_def psbt_branch_def)

lemma parse_psbts_hex:
  "list_all (list_all is_hex_digit) ss \<Longrightarrow>
     parse_psbts fromBase fromHex net i ss = parse_psbts fromBase other net i ss"
  by (induction ss arbitrary: i) (simp_all add: parse_psbt_hex split: sum.splits)

text \<open>
  C3. Every string over the hex alphabet \<open>[0-9a-fA-F]\<close> also matches the base64-detection
  pattern \<open>^[A-Za-z0-9+/]*={0,2}$\<close> used by \<open>decode_psbt\<close>, \<open>sign_psbt\<close>,
  \<open>finalize_psbt\<close>, \<open>combine_psbts\<close> and \<open>update_psbt\<close>, so for every input that is
  valid hex the parser takes the base64-decoding branch: its result is the result of the
  library's base64 parser and does not depend on the hex parser. The hex-decoding branch
  is taken only for inputs that are not valid hex.
\<close>

theorem psbt_hex_input_takes_base64_branch:
  "(list_all is_hex_digit s \<longrightarrow>
      regex_test base64_pattern s \<and> psbt_branch s = FromBase64
      \<and> parse_psbt fromBase fromHex prefix s net =
          (case fromBase s net of Inl msg \<Rightarrow> Inl (Error (prefix @ msg)) | Inr p \<Rightarrow> Inr p)
      \<and> load_psbt fromBase fromHex s network = load_psbt fromBase other s network)
   \<and> (list_all (list_all is_hex_digit) ss \<longrightarrow>
        load_psbts fromBase fromHex ss network = load_psbts fromBase other ss network)
   \<and> (isValidHex s \<longrightarrow> psbt_branch s = FromBase64)
   \<and> (psbt_branch s = FromHex \<longrightarrow> \<not> list_all is_hex_digit s \<and> \<not> isValidHex s)"
proof -
  have hex: "psbt_branch s = FromBase64" if "list_all is_hex_digit s"
    using hex_matches_base64 [OF that] by (simp add: psbt_branch_def)
  have valid: "list_all is_hex_digit s" if "isValidHex s"
    using that by (simp add: isValidHex_def hex_star_iff)
  have one: "load_psbt fromBase fromHex s network = load_psbt fromBase other s network"
    if "list_all is_hex_digit s"
    using that by (simp add: load_psbt_def parse_psbt_hex split: sum.splits)
  have many: "load_psbts fromBase fromHex ss network = load_psbts fromBase other ss network"
    if "list_all (list_all is_hex_digit) ss"
    using parse_psbts_hex [OF that, of fromBase fromHex _ 0 other]
    by (simp add: load_psbts_def split: sum.splits)
  show ?thesis
    using hex valid one many by (auto simp: parse_psbt_hex hex_matches_base64)
qed

theorem psbt_hex_input_takes_base64_branch_witness:
  "psbt_branch ''70736274ff01'' = FromBase64
   \<and> parse_psbt (\<lambda>s n. Inl ''not base64'') (\<lambda>s n. Inr s) ''Invalid PSBT format: ''
        ''70736274ff01'' Testnet = Inl (Error ''Invalid PSBT format: not base64'')
   \<and> psbt_branch ''70 73'' = FromHex \<and> \<not> isValidHex ''70 73''"
proof -
  have h: "list_all is_hex_digit ''70736274ff01''"
    by (simp add: is_hex_digit_def)
  have f: "psbt_branch ''70 73'' = FromHex"
    by code_simp
  note a = psbt_hex_input_takes_base64_branch [where s = "''70736274ff01''"
      and fromBase = "\<lambda>s n. Inl ''not base64''" and fromHex = "\<lambda>s n. Inr s"
      and other = "\<lambda>s n. Inr s" and prefix = "''Invalid PSBT format: ''" and net = Testnet
      and network = None and ss = "[]"]
  note b = psbt_hex_input_takes_base64_branch [where s = "''70 73''"
      and fromBase = "\<lambda>s n. (Inl ''not base64'' :: string + string)"
      and fromHex = "\<lambda>s n. Inr s" and other = "\<lambda>s n. Inr s"
      and prefix = "''Invalid PSBT format: ''" and net = Testnet
      and network = None and ss = "[]"]
  from a h have 1: "psbt_branch ''70736274ff01'' = FromBase64"
    by blast
  from a h have "parse_psbt (\<lambda>s n. Inl ''not base64'') (\<lambda>s n. Inr s)
        ''Invalid PSBT format: '' ''70736274ff01'' Testnet
      = (case (Inl ''not base64'' :: string + string) of
           Inl msg \<Rightarrow> Inl (Error (''Invalid PSBT format: '' @ msg)) | Inr p \<Rightarrow> Inr p)"
    by blast
  then have 2: "parse_psbt (\<lambda>s n. Inl ''not base64'') (\<lambda>s n. Inr s)
        ''Invalid PSBT format: '' ''70736274ff01'' Testnet
      = Inl (Error ''Invalid PSBT format: not base64'')"
    by simp
  from b f have 3: "\<not> isValidHex ''70 73''"
    by blast
  from 1 2 f 3 show ?thesis
    by blast
qed

subsection \<open>Numbers\<close>

lemma bits_zero: "bits 0 = 0"
  by (subst bits.simps) simp

lemma bits_step: "0 < n \<Longrightarrow> bits n = Suc (bits (n div 2))"
  by (subst bits.simps) simp

lemma round_nat_exact: "a < 2 ^ 53 \<Longrightarrow> round_nat a = a"
  by (simp add: round_nat_def)

lemma to_number_exact: "\<bar>x\<bar> < 2 ^ 53 \<Longrightarrow> to_number x = Finite x"
proof -
  assume "\<bar>x\<bar> < 2 ^ 53"
  then have small: "nat \<bar>x\<bar> < 2 ^ 53"
    by (simp add: nat_less_iff)
  then have r: "round_nat (nat \<bar>x\<bar>) = nat \<bar>x\<bar>"
    by (rule round_nat_exact)
  have "(2::nat) ^ 53 < 2 ^ 1024"
    by (rule power_strict_increasing) simp_all
  with small have "\<not> (2::nat) ^ 1024 \<le> nat \<bar>x\<bar>"
    by linarith
  then show ?thesis
    by (simp add: to_number_def r Let_def)
qed

text \<open>A number of \<open>n\<close> bits lies between \<open>2^(n-1)\<close> and \<open>2^n\<close>, and rounding keeps it there.\<close>

lemma bits_bounds: "0 < n \<Longrightarrow> 2 ^ (bits n - 1) \<le> n \<and> n < 2 ^ bits n"
proof (induction n rule: bits.induct)
  case (1 n)
  show ?case
  proof (cases "n div 2 = 0")
    case True
    with 1(2) have "n = 1"
      by (simp add: div_eq_0_iff)
    then show ?thesis
      by (simp add: bits_zero bits_step)
  next
    case False
    then have h: "0 < n div 2"
      by simp
    with 1 have ih: "2 ^ (bits (n div 2) - 1) \<le> n div 2" "n div 2 < 2 ^ bits (n div 2)"
      by simp_all
    from h have b: "0 < bits (n div 2)"
      by (simp add: bits_step)
    have n: "bits n = Suc (bits (n div 2))"
      using 1(2) by (rule bits_step)
    from b have "(2::nat) ^ bits (n div 2) = 2 * 2 ^ (bits (n div 2) - 1)"
      by (cases "bits (n div 2)") simp_all
    with ih(1) have lo: "2 ^ bits (n div 2) \<le> n"
      by linarith
    from ih(2) have hi: "n < 2 * 2 ^ bits (n div 2)"
      by linarith
    from lo hi show ?thesis
      by (simp add: n)
  qed
qed

lemma half_even_ge: "q \<le> half_even q r d"
  by (simp add: half_even_def)

lemma round_nat_lower:
  assumes "2 ^ 53 \<le> a"
  shows "2 ^ (bits a - 1) \<le> round_nat a"
proof -
  define e where "e = bits a - 53"
  from assms have pos: "0 < a"
    by (simp add: order.strict_trans2 [of 0 "2 ^ 53"])
  from bits_bounds [OF pos] have bb: "2 ^ (bits a - 1) \<le> a" "a < 2 ^ bits a"
    by simp_all
  from assms bb(2) have "(2::nat) ^ 53 < 2 ^ bits a"
    by linarith
  then have big: "53 < bits a"
    by (rule power_less_imp_less_exp [rotated]) simp
  then have split: "bits a - 1 = 52 + e"
    by (simp add: e_def)
  from bb(1) have "2 ^ (52 + e) \<le> a"
    by (simp only: split)
  then have "2 ^ 52 * 2 ^ e \<le> a"
    by (simp only: power_add)
  moreover have "(0::nat) < 2 ^ e"
    by simp
  ultimately have "2 ^ 52 \<le> a div 2 ^ e"
    by (simp only: less_eq_div_iff_mult_less_eq)
  also have "\<dots> \<le> half_even (a div 2 ^ e) (a mod 2 ^ e) (2 ^ e)"
    by (rule half_even_ge)
  finally have "2 ^ 52 * 2 ^ e \<le> half_even (a div 2 ^ e) (a mod 2 ^ e) (2 ^ e) * 2 ^ e"
    by (rule mult_right_mono) simp
  moreover have "round_nat a = half_even (a div 2 ^ e) (a mod 2 ^ e) (2 ^ e) * 2 ^ e"
    using assms by (simp add: round_nat_def e_def Let_def)
  ultimately show ?thesis
    by (simp only: split power_add)
qed

lemma to_number_overflow:
  assumes "2 ^ 1024 \<le> x"
  shows "to_number x = Infinity"
proof -
  define a where "a = nat \<bar>x\<bar>"
  from assms have x: "0 \<le> x" "\<not> x < 0"
    by (simp_all add: order_trans [of 0 "2 ^ 1024"] )
  from assms x have a: "2 ^ 1024 \<le> a"
    by (simp add: a_def le_nat_iff)
  have "(2::nat) ^ 53 \<le> 2 ^ 1024"
    by (rule power_increasing) simp_all
  with a have a53: "2 ^ 53 \<le> a"
    by linarith
  then have pos: "0 < a"
    by (simp add: order.strict_trans2 [of 0 "2 ^ 53"])
  from bits_bounds [OF pos] a have "(2::nat) ^ 1024 < 2 ^ bits a"
    by linarith
  then have "1024 < bits a"
    by (rule power_less_imp_less_exp [rotated]) simp
  then have "(2::nat) ^ 1024 \<le> 2 ^ (bits a - 1)"
    by (intro power_increasing) simp_all
  with round_nat_lower [OF a53] have "2 ^ 1024 \<le> round_nat a"
    by linarith
  then show ?thesis
    using x by (simp add: to_number_def a_def Let_def)
qed


text \<open>
  Past 53 bits a product is rounded: \<open>192 * (2^53 - 1)\<close> is \<open>1729382256910270272\<close>, and
  the double next to it is 64 below.
\<close>

lemma to_number_rounds: "to_number (192 * (2 ^ 53 - 1)) = Finite 1729382256910270208"
  by (simp add: to_number_def round_nat_def half_even_def Let_def bits_zero bits_step)

text \<open>
  The quotient by \<open>10^8\<close> is rounded before it is printed: from \<open>2^26 * 10^8\<close> satoshis on
  the eighth digit can differ from the last digit of the amount.
\<close>

lemma formatSatoshis_rounded_quotient:
  "formatSatoshis (Finite 6710886400000002) BTC = ''67108864.00000001 BTC''"
  by (simp add: formatSatoshis_def double_quotient_def scaled_def bits_zero bits_step
      half_even_def fixed_digits_def fixed_string_def digit_char_def replicate_numeral)

lemma formatSatoshis_small:
  "formatSatoshis (Finite 123456789) BTC = ''1.23456789 BTC''"
  "formatSatoshis (Finite 1) BTC = ''0.00000001 BTC''"
  "formatSatoshis (Finite 0) BTC = ''0.00000000 BTC''"
  "formatSatoshis (Finite 150000) mBTC = ''1.50000 mBTC''"
  by (simp_all add: formatSatoshis_def double_quotient_def scaled_def bits_zero bits_step
      half_even_def fixed_digits_def fixed_string_def digit_char_def replicate_numeral)

text \<open>The steps of \<open>shortest\<close>, for evaluation.\<close>

lemma shortest_found:
  "round_nat (x div 10 ^ (m - k) * 10 ^ (m - k)) = x
     \<or> round_nat ((x div 10 ^ (m - k) + 1) * 10 ^ (m - k)) = x \<or> m \<le> k \<Longrightarrow>
   shortest x m k =
     (let u = 10 ^ (m - k); lo = x div u; hi = lo + 1;
          okl = (round_nat (lo * u) = x); okh = (round_nat (hi * u) = x);
          nearer = (x - lo * u < hi * u - x \<or> (x - lo * u = hi * u - x \<and> even lo))
      in if (if okl then (if okh then nearer else True) else False)
         then (lo, k) else (hi, k))"
  by (subst shortest.simps) (simp add: Let_def)

lemma shortest_next:
  "round_nat (x div 10 ^ (m - k) * 10 ^ (m - k)) \<noteq> x \<Longrightarrow>
   round_nat ((x div 10 ^ (m - k) + 1) * 10 ^ (m - k)) \<noteq> x \<Longrightarrow> k < m \<Longrightarrow>
   shortest x m k = shortest x m (k + 1)"
  by (subst shortest.simps) (simp add: Let_def)

text \<open>
  Past 53 bits the digits printed are the shortest that read back as the same double,
  not the digits of the integer; from \<open>10 ^ 21\<close> on the exponent is printed, by \<open>toFixed\<close>
  too.
\<close>

lemma nat_string_rounded:
  "nat_string 1152921504606846976 = ''1152921504606847000''"
proof -
  have m: "length (decimal 1152921504606846976) = 19"
    by simp
  have s: "shortest 1152921504606846976 19 1 = (1152921504606847, 16)"
    by (simp add: shortest_found shortest_next round_nat_def Let_def half_even_def
        bits_zero bits_step)
  show ?thesis
    unfolding nat_string_def Let_def m s
    by (simp add: digit_char_def replicate_numeral)
qed

lemma nat_string_exponent:
  "nat_string 99999999999999991611392 = ''1e+23''"
proof -
  have m: "length (decimal 99999999999999991611392) = 23"
    by simp
  have s: "shortest 99999999999999991611392 23 1 = (10, 1)"
    by (simp add: shortest_found shortest_next round_nat_def Let_def half_even_def
        bits_zero bits_step)
  show ?thesis
    unfolding nat_string_def Let_def m s
    by (simp add: digit_char_def)
qed

lemma formatSatoshis_exponent:
  "formatSatoshis (Finite (2 ^ 100)) BTC = ''1.2676506002282294e+22 BTC''"
proof -
  have q: "double_quotient 1267650600228229401496703205376 100000000 = (6044629098073146, 21)"
    by (simp add: double_quotient_def scaled_def half_even_def bits_zero bits_step)
  have m: "length (decimal 12676506002282294280192) = 23"
    by simp
  have s: "shortest 12676506002282294280192 23 1 = (12676506002282294, 17)"
    by (simp add: shortest_found shortest_next round_nat_def Let_def half_even_def
        bits_zero bits_step)
  have n: "nat_string 12676506002282294280192 = ''1.2676506002282294e+22''"
    unfolding nat_string_def Let_def m s
    by (simp add: digit_char_def)
  have "toFixed_quotient (Finite (2 ^ 100)) 100000000 8 = ''1.2676506002282294e+22''"
    by (simp add: q n)
  then show ?thesis
    by (simp add: formatSatoshis_def)
qed

subsection \<open>Fee estimation\<close>

text \<open>Non-positive counts and rates are refused, and so is an unknown input type.\<close>

lemma estimateTransactionFee_rejects:
  "x \<le> 0 \<or> y \<le> 0 \<Longrightarrow>
     estimateTransactionFee (Finite x) (Finite y) rate inputType
       = Inl (Error ''Inputs and outputs must be positive numbers'')"
  "0 < x \<Longrightarrow> 0 < y \<Longrightarrow> z \<le> 0 \<Longrightarrow>
     estimateTransactionFee (Finite x) (Finite y) (Finite z) inputType
       = Inl (Error ''Fee rate must be positive'')"
  "0 < x \<Longrightarrow> 0 < y \<Longrightarrow> 0 < z \<Longrightarrow>
   or_default inputType ''segwit'' \<notin> {''legacy'', ''segwit'', ''taproot''} \<Longrightarrow>
     estimateTransactionFee (Finite x) (Finite y) (Finite z) inputType
       = Inl (Error (''Unknown input type: '' @ or_default inputType ''segwit''))"
  by (auto simp: estimateTransactionFee_def input_costs_def Let_def)

text \<open>
  For legacy inputs, and as long as the fee stays below \<open>2^53\<close>, the result is the
  arithmetic of the byte costs: 148 bytes per input, 34 per output and 10 base.
\<close>

lemma estimateTransactionFee_legacy_steps:
  assumes "\<not> num_le inputs (Finite 0)" "\<not> num_le outputs (Finite 0)"
    and "\<not> num_le rate (Finite 0)"
  shows "estimateTransactionFee inputs outputs rate (Some ''legacy'') =
     (let size0 = num_add (num_add (Finite 10) (num_mul inputs (Finite 148)))
                          (num_mul outputs (Finite 34));
          weight0 = num_mul size0 (Finite 4);
          vsize0 = ceil_quarter weight0;
          fee0 = math_ceil (num_mul vsize0 rate)
      in Inr \<lparr>size' = size0, vsize = vsize0, weight = weight0, fee = fee0, feeRate = rate,
               feeFormatted = formatSatoshis fee0 BTC\<rparr>)"
  using assms
  by (simp add: estimateTransactionFee_def input_costs_def or_default_def Let_def)

lemma estimateTransactionFee_legacy:
  assumes "0 < x" "0 < y" "0 < z" and "(10 + x * 148 + y * 34) * z < 2 ^ 51"
  shows "\<exists>r. estimateTransactionFee (Finite x) (Finite y) (Finite z) (Some ''legacy'') = Inr r
     \<and> size' r = Finite (10 + x * 148 + y * 34)
     \<and> weight r = Finite ((10 + x * 148 + y * 34) * 4)
     \<and> vsize r = Finite (10 + x * 148 + y * 34)
     \<and> fee r = Finite ((10 + x * 148 + y * 34) * z)"
proof -
  define s where "s = 10 + x * 148 + y * 34"
  have pos: "0 < s"
    using assms(1,2) by (simp add: s_def)
  from assms(4) have b: "s * z < 2 ^ 51"
    by (simp add: s_def)
  from pos assms(3) have "s * 1 \<le> s * z"
    by (intro mult_left_mono) simp_all
  with b have sb: "s < 2 ^ 51"
    by simp
  have "\<bar>x * 148\<bar> < 2 ^ 53" "\<bar>y * 34\<bar> < 2 ^ 53"
    using assms(1,2) sb unfolding s_def by simp_all
  then have m: "num_mul (Finite x) (Finite 148) = Finite (x * 148)"
      "num_mul (Finite y) (Finite 34) = Finite (y * 34)"
    by (simp_all only: num_mul.simps to_number_exact)
  have "\<bar>10 + x * 148\<bar> < 2 ^ 53" "\<bar>10 + x * 148 + y * 34\<bar> < 2 ^ 53"
    using assms(1,2) sb unfolding s_def by simp_all
  then have a: "num_add (Finite 10) (Finite (x * 148)) = Finite (10 + x * 148)"
      "num_add (Finite (10 + x * 148)) (Finite (y * 34)) = Finite s"
    by (simp_all only: num_add.simps to_number_exact s_def)
  have "\<bar>s * 4\<bar> < 2 ^ 53" "\<bar>s * z\<bar> < 2 ^ 53"
    using pos sb b assms(3) by simp_all
  then have w: "num_mul (Finite s) (Finite 4) = Finite (s * 4)"
      "num_mul (Finite s) (Finite z) = Finite (s * z)"
    by (simp_all only: num_mul.simps to_number_exact)
  have v: "ceil_quarter (Finite (s * 4)) = Finite s"
    by simp
  have n: "\<not> num_le (Finite x) (Finite 0)" "\<not> num_le (Finite y) (Finite 0)"
      "\<not> num_le (Finite z) (Finite 0)"
    using assms(1-3) by simp_all
  have "estimateTransactionFee (Finite x) (Finite y) (Finite z) (Some ''legacy'')
      = Inr \<lparr>size' = Finite s, vsize = Finite s, weight = Finite (s * 4),
              fee = Finite (s * z), feeRate = Finite z,
              feeFormatted = formatSatoshis (Finite (s * z)) BTC\<rparr>"
    unfolding estimateTransactionFee_legacy_steps [OF n]
    by (simp only: Let_def m a w v math_ceil_def)
  then show ?thesis
    by (simp add: s_def)
qed

text \<open>Past \<open>2^53\<close> the fee is the rounded product, and past the largest double an infinity.\<close>

lemma estimateTransactionFee_rounded_product:
  "estimateTransactionFee (Finite 1) (Finite 1) (Finite (2 ^ 53 - 1)) (Some ''legacy'')
   = Inr \<lparr>size' = Finite 192, vsize = Finite 192, weight = Finite 768,
          fee = Finite 1729382256910270208, feeRate = Finite (2 ^ 53 - 1),
          feeFormatted = ''17293822569.10270309 BTC''\<rparr>"
  by (simp add: estimateTransactionFee_def input_costs_def or_default_def Let_def
      to_number_exact math_ceil_def formatSatoshis_def double_quotient_def scaled_def
      half_even_def fixed_digits_def fixed_string_def digit_char_def replicate_numeral
      to_number_def round_nat_def bits_zero bits_step)

lemma estimateTransactionFee_infinite:
  "estimateTransactionFee (Finite 1) (Finite 1) (Finite (2 ^ 1023)) (Some ''legacy'')
   = Inr \<lparr>size' = Finite 192, vsize = Finite 192, weight = Finite 768,
          fee = Infinity, feeRate = Finite (2 ^ 1023), feeFormatted = ''Infinity BTC''\<rparr>"
proof -
  have "to_number (192 * 2 ^ 1023) = Infinity"
    by (rule to_number_overflow) simp
  then show ?thesis
    by (simp add: estimateTransactionFee_def input_costs_def or_default_def Let_def
        to_number_exact math_ceil_def formatSatoshis_def)
qed

text \<open>
  For segwit inputs the handler takes \<open>inputs * 107\<close> off the size before it weighs it, so
  that every further input lowers the weight by 49.
\<close>

lemma estimateTransactionFee_segwit_steps:
  assumes "\<not> num_le inputs (Finite 0)" "\<not> num_le outputs (Finite 0)"
    and "\<not> num_le rate (Finite 0)"
  shows "estimateTransactionFee inputs outputs rate (Some ''segwit'') =
     (let size0 = num_add (num_add (Finite 10) (num_mul inputs (Finite 68)))
                          (num_mul outputs (Finite 34));
          witness = num_mul inputs (Finite 107);
          weight0 = num_add (num_mul (num_sub size0 witness) (Finite 4))
                            (num_add witness (Finite 2));
          vsize0 = ceil_quarter weight0;
          fee0 = math_ceil (num_mul vsize0 rate)
      in Inr \<lparr>size' = num_add (num_sub size0 witness) (ceil_quarter witness),
               vsize = vsize0, weight = weight0, fee = fee0, feeRate = rate,
               feeFormatted = formatSatoshis fee0 BTC\<rparr>)"
  using assms
  by (simp add: estimateTransactionFee_def input_costs_def or_default_def Let_def)

lemma estimateTransactionFee_segwit:
  assumes "0 < x" "x < 2 ^ 40" "0 < y" "y < 2 ^ 40" "0 < z"
  shows "\<exists>r. estimateTransactionFee (Finite x) (Finite y) (Finite z) (Some ''segwit'') = Inr r
     \<and> weight r = Finite (42 + 136 * y - 49 * x)
     \<and> vsize r = Finite \<lceil>real_of_int (42 + 136 * y - 49 * x) / 4\<rceil>
     \<and> size' r = Finite (10 + 34 * y - 39 * x + \<lceil>real_of_int (107 * x) / 4\<rceil>)"
proof -
  define s where "s = 10 + x * 68 + y * 34"
  define w where "w = x * 107"
  have "\<bar>x * 68\<bar> < 2 ^ 53" "\<bar>y * 34\<bar> < 2 ^ 53" "\<bar>x * 107\<bar> < 2 ^ 53"
    using assms(1-4) by simp_all
  then have m: "num_mul (Finite x) (Finite 68) = Finite (x * 68)"
      "num_mul (Finite y) (Finite 34) = Finite (y * 34)"
      "num_mul (Finite x) (Finite 107) = Finite w"
    by (simp_all only: num_mul.simps to_number_exact w_def)
  have "\<bar>10 + x * 68\<bar> < 2 ^ 53" "\<bar>10 + x * 68 + y * 34\<bar> < 2 ^ 53"
    using assms(1-4) by simp_all
  then have a: "num_add (Finite 10) (Finite (x * 68)) = Finite (10 + x * 68)"
      "num_add (Finite (10 + x * 68)) (Finite (y * 34)) = Finite s"
    by (simp_all only: num_add.simps to_number_exact s_def)
  have "\<bar>s + - w\<bar> < 2 ^ 53"
    using assms(1-4) by (simp add: s_def w_def)
  then have d: "num_sub (Finite s) (Finite w) = Finite (s + - w)"
    by (simp only: num_sub_def num_neg.simps num_add.simps to_number_exact)
  have "\<bar>(s + - w) * 4\<bar> < 2 ^ 53" "\<bar>w + 2\<bar> < 2 ^ 53"
      "\<bar>(s + - w) * 4 + (w + 2)\<bar> < 2 ^ 53"
    using assms(1-4) by (simp_all add: s_def w_def)
  then have q: "num_mul (Finite (s + - w)) (Finite 4) = Finite ((s + - w) * 4)"
      "num_add (Finite w) (Finite 2) = Finite (w + 2)"
      "num_add (Finite ((s + - w) * 4)) (Finite (w + 2)) = Finite ((s + - w) * 4 + (w + 2))"
    by (simp_all only: num_mul.simps num_add.simps to_number_exact)
  have "\<bar>s + - w + \<lceil>real_of_int w / 4\<rceil>\<bar> < 2 ^ 53"
    using assms(1-4) by (simp add: s_def w_def) linarith
  then have z: "num_add (Finite (s + - w)) (Finite \<lceil>real_of_int w / 4\<rceil>)
      = Finite (s + - w + \<lceil>real_of_int w / 4\<rceil>)"
    by (simp only: num_add.simps to_number_exact)
  have n: "\<not> num_le (Finite x) (Finite 0)" "\<not> num_le (Finite y) (Finite 0)"
      "\<not> num_le (Finite z) (Finite 0)"
    using assms(1,3,5) by simp_all
  obtain f where "math_ceil (num_mul (Finite \<lceil>real_of_int ((s + - w) * 4 + (w + 2)) / 4\<rceil>) (Finite z)) = f"
    by simp
  then have "estimateTransactionFee (Finite x) (Finite y) (Finite z) (Some ''segwit'')
      = Inr \<lparr>size' = Finite (s + - w + \<lceil>real_of_int w / 4\<rceil>),
              vsize = Finite \<lceil>real_of_int ((s + - w) * 4 + (w + 2)) / 4\<rceil>,
              weight = Finite ((s + - w) * 4 + (w + 2)),
              fee = f, feeRate = Finite z, feeFormatted = formatSatoshis f BTC\<rparr>"
    unfolding estimateTransactionFee_segwit_steps [OF n]
    by (simp only: Let_def m a d q z ceil_quarter.simps)
  moreover have "(s + - w) * 4 + (w + 2) = 42 + 136 * y - 49 * x"
    by (simp add: s_def w_def)
  moreover have "s + - w = 10 + 34 * y - 39 * x" "w = 107 * x"
    by (simp_all add: s_def w_def)
  ultimately show ?thesis
    by simp
qed

text \<open>
  C2, at an input where the code leaves the claim. For ten segwit inputs and one output
  at a fee rate of 10 the handler returns a size of \<open>-78\<close>, a weight of \<open>-312\<close>, a virtual
  size of \<open>-78\<close> and a fee of \<open>-780\<close>: it takes \<open>inputs * witnessSize\<close> off a size that was
  summed without the witness bytes. A size made of 68 bytes per input and 107 witness
  bytes, 34 bytes per output and 10 bytes base is not negative, and
  \<open>estimateTransactionSize\<close> of \<open>utils/bitcoin.ts\<close> gives 722 bytes for the same
  transaction.
\<close>

theorem estimateTransactionFee_negative_for_segwit:
  "estimateTransactionFee (Finite 10) (Finite 1) (Finite 10) (Some ''segwit'')
     = Inr \<lparr>size' = Finite (- 78), vsize = Finite (- 78), weight = Finite (- 312),
            fee = Finite (- 780), feeRate = Finite 10,
            feeFormatted = ''-0.00000780 BTC''\<rparr>
   \<and> estimateTransactionSize (Finite 10) (Finite 1) True = Finite 722"
proof -
  have fee: "estimateTransactionFee (Finite 10) (Finite 1) (Finite 10) (Some ''segwit'')
     = Inr \<lparr>size' = Finite (- 78), vsize = Finite (- 78), weight = Finite (- 312),
            fee = Finite (- 780), feeRate = Finite 10,
            feeFormatted = ''-0.00000780 BTC''\<rparr>"
    by (simp add: estimateTransactionFee_def input_costs_def or_default_def Let_def num_sub_def
        to_number_exact math_ceil_def formatSatoshis_def double_quotient_def scaled_def
        half_even_def fixed_digits_def fixed_string_def digit_char_def replicate_numeral
        bits_zero bits_step)
  have size: "estimateTransactionSize (Finite 10) (Finite 1) True = Finite 722"
    by (simp add: estimateTransactionSize_def Let_def to_number_exact)
  from fee size show ?thesis
    by (rule conjI)
qed

subsection \<open>The network argument\<close>

lemma resolveNetwork_valid:
  "validateNetwork (or_default network ''testnet'') \<Longrightarrow> \<exists>net. resolveNetwork network = Inr net"
  using getNetworkConfig_validateNetwork by (simp add: resolveNetwork_def Let_def)

lemma resolveNetwork_invalid:
  "\<not> validateNetwork (or_default network ''testnet'') \<Longrightarrow>
     resolveNetwork network = Inl (Error (''Invalid network: '' @ or_default network ''testnet''))"
  by (simp add: resolveNetwork_def Let_def)

lemma resolveNetwork_absent: "resolveNetwork None = Inr Testnet"
  by (simp add: resolveNetwork_def or_default_def validateNetwork_lower getNetworkConfig_def
      toLowerCase_def toLowerCase_char_def)

subsection \<open>verify_message\<close>

text \<open>
  C7. For every input with a recognised network, \<open>verify_message\<close> never returns
  \<open>valid = true\<close>: if the base64-decoded signature is not exactly 65 bytes long it returns
  \<open>valid = false\<close> with the error \<open>Invalid signature length\<close>, and otherwise it returns
  \<open>valid = false\<close> with a message saying that verification is not implemented.
\<close>

theorem verify_message_never_valid:
  assumes "validateNetwork (or_default network ''testnet'')"
  shows "\<exists>r. verifyMessage fromBase addr msg sg network = Inr r
            \<and> \<not> valid r
            \<and> (length (fromBase sg) \<noteq> 65 \<longrightarrow> error r = Some ''Invalid signature length'')
            \<and> (length (fromBase sg) = 65 \<longrightarrow> error r = Some
                  ''Message verification not fully implemented - use specialized libraries'')"
proof -
  from resolveNetwork_valid [OF assms] obtain net where "resolveNetwork network = Inr net" ..
  then show ?thesis
    by (simp add: verifyMessage_def Let_def)
qed

theorem verify_message_never_valid_witness:
  "validateNetwork (or_default None ''testnet'')
   \<and> (\<exists>r. verifyMessage (\<lambda>s. replicate 65 0) ''mzBc4XEFSdzCDcTxAgf6EZXgsZWpztRhef'' ''hello''
             ''H0Vt'' None = Inr r \<and> \<not> valid r
           \<and> error r = Some
                ''Message verification not fully implemented - use specialized libraries'')
   \<and> (\<exists>r. verifyMessage (\<lambda>s. []) ''mzBc4XEFSdzCDcTxAgf6EZXgsZWpztRhef'' ''hello''
             '''' None = Inr r \<and> \<not> valid r \<and> error r = Some ''Invalid signature length'')"
proof -
  have v: "validateNetwork (or_default None ''testnet'')"
    by (simp add: or_default_def validateNetwork_lower toLowerCase_def toLowerCase_char_def)
  from verify_message_never_valid [OF v, of "\<lambda>s. replicate 65 0"
      "''mzBc4XEFSdzCDcTxAgf6EZXgsZWpztRhef''" "''hello''" "''H0Vt''"]
    verify_message_never_valid [OF v, of "\<lambda>s. []"
      "''mzBc4XEFSdzCDcTxAgf6EZXgsZWpztRhef''" "''hello''" "''''"] v
  show ?thesis
    by simp
qed

subsection \<open>Hex text and buffers\<close>

lemma hex_plus_iff:
  "regex_test (RPlus (RClass hex_class)) s \<longleftrightarrow> s \<noteq> [] \<and> list_all is_hex_digit s"
proof (cases s)
  case Nil
  then show ?thesis
    by (simp add: regex_test_lang RPlus_def conc_def)
next
  case (Cons c w)
  have "c # w \<in> conc {[c] | c. is_hex_digit c} (kstar {[c] | c. is_hex_digit c})
      \<longleftrightarrow> is_hex_digit c \<and> list_all is_hex_digit w"
    by (auto simp: conc_Cons kstar_class)
  with Cons show ?thesis
    by (simp add: regex_test_lang RPlus_def in_hex_class)
qed

lemma hex_value_Some: "hex_value c \<noteq> None \<longleftrightarrow> is_hex_digit c"
proof -
  have "hex_value c \<noteq> None \<longleftrightarrow> in_class c hex_class"
    by (auto simp: hex_value_def in_class_def hex_class_def in_range_def Let_def)
  then show ?thesis
    by (simp add: in_hex_class)
qed

lemma length_bufferFromHex:
  "list_all is_hex_digit s \<Longrightarrow> length (bufferFromHex s) = length s div 2"
proof (induction s rule: bufferFromHex.induct)
  case (1 a b rest)
  from "1.prems" have h: "is_hex_digit a" "is_hex_digit b" "list_all is_hex_digit rest"
    by simp_all
  from h(1,2) have "hex_value a \<noteq> None" "hex_value b \<noteq> None"
    using hex_value_Some by blast+
  then obtain x y where xy: "hex_value a = Some x" "hex_value b = Some y" by auto
  with "1.IH" [OF refl xy(1) xy(2)] h(3) show ?case
    by simp
qed simp_all

subsection \<open>create_multisig\<close>

lemma convert_pubkeys_step:
  "convert_pubkeys i (k # ks) =
     (if key_accepted k
      then (case convert_pubkeys (Suc i) ks of Inl e \<Rightarrow> Inl e
            | Inr bs \<Rightarrow> Inr (bufferFromHex k # bs))
      else if k \<noteq> [] \<and> list_all is_hex_digit k
      then Inl (Error (''Invalid public key length at index '' @ decimal i
                        @ '': got '' @ decimal (length k div 2) @ '', expected 33 or 65''))
      else Inl (Error (''Invalid public key format at index '' @ decimal i @ '': not hex'')))"
proof (cases "k \<noteq> [] \<and> list_all is_hex_digit k")
  case True
  then have "length (bufferFromHex k) = length k div 2"
    by (simp add: length_bufferFromHex)
  with True show ?thesis
    by (simp add: hex_plus_iff key_accepted_def Let_def)
next
  case False
  then show ?thesis
    by (auto simp: hex_plus_iff key_accepted_def)
qed

lemma convert_pubkeys_accepts:
  "list_all key_accepted ks \<Longrightarrow> convert_pubkeys i ks = Inr (map bufferFromHex ks)"
  by (induction ks arbitrary: i) (simp_all add: convert_pubkeys_step del: convert_pubkeys.simps(2))

lemma convert_pubkeys_rejects:
  "\<not> list_all key_accepted ks \<Longrightarrow> \<exists>e. convert_pubkeys i ks = Inl e"
proof (induction ks arbitrary: i)
  case Nil
  then show ?case by simp
next
  case (Cons k ks)
  show ?case
  proof (cases "key_accepted k")
    case True
    with Cons.prems have "\<not> list_all key_accepted ks" by simp
    from Cons.IH [OF this, of "Suc i"] True show ?thesis
      by (auto simp: convert_pubkeys_step simp del: convert_pubkeys.simps(2))
  next
    case False
    then show ?thesis
      by (simp add: convert_pubkeys_step del: convert_pubkeys.simps(2))
  qed
qed

lemma convert_pubkeys_Inr:
  "convert_pubkeys i ks = Inr bs \<longleftrightarrow> list_all key_accepted ks \<and> bs = map bufferFromHex ks"
proof (cases "list_all key_accepted ks")
  case True
  from convert_pubkeys_accepts [OF this, of i] True show ?thesis by auto
next
  case False
  from convert_pubkeys_rejects [OF this, of i] False show ?thesis by auto
qed

lemma lib_call_Inr: "lib_call x f = Inr r \<longleftrightarrow> (\<exists>v. x = Inr v \<and> f v = Inr r)"
  by (cases x) (simp_all add: lib_call_def)

lemma multisig_result_fields:
  assumes "multisig_result lib net ty k ks script = Inr r"
  shows "result_m r = k \<and> result_n r = length ks \<and> publicKeys r = ks"
proof -
  consider "ty = ''p2sh''" | "ty = ''p2wsh''" | "ty = ''p2sh-p2wsh''"
    | "ty \<noteq> ''p2sh''" "ty \<noteq> ''p2wsh''" "ty \<noteq> ''p2sh-p2wsh''"
    by blast
  then show ?thesis
  proof cases
    case 1
    with assms show ?thesis
      by (auto simp: multisig_result_def lib_call_Inr)
  next
    case 2
    with assms show ?thesis
      by (auto simp: multisig_result_def lib_call_Inr)
  next
    case 3
    with assms show ?thesis
      by (auto simp: multisig_result_def lib_call_Inr)
  next
    case 4
    with assms show ?thesis
      by (simp add: multisig_result_def)
  qed
qed

lemma createMultisig_checked:
  assumes "resolveNetwork network = Inr net"
  shows "createMultisig lib k ks network addressType =
     (if k \<le> 0 \<or> k > int (length ks)
      then Inl (Error ''Invalid m value: must be between 1 and number of public keys'')
      else if length ks < 1 \<or> length ks > 15
      then Inl (Error ''Invalid number of public keys: must be between 1 and 15'')
      else (case convert_pubkeys 0 ks of
              Inl e \<Rightarrow> Inl e
            | Inr pubkeys \<Rightarrow>
                lib_call (payments_p2ms lib k pubkeys net)
                  (multisig_result lib net (or_default addressType ''p2sh'') k ks)))"
  by (simp add: createMultisig_def assms Let_def)

lemma createMultisig_success:
  assumes "createMultisig lib k ks network addressType = Inr r"
  shows "result_m r = k \<and> result_n r = length ks \<and> publicKeys r = ks
     \<and> 1 \<le> k \<and> k \<le> int (length ks) \<and> length ks \<le> 15
     \<and> list_all key_accepted ks"
proof (cases "resolveNetwork network")
  case (Inl e)
  with assms show ?thesis
    by (simp add: createMultisig_def)
next
  case (Inr net)
  note eq = assms [unfolded createMultisig_checked [OF Inr]]
  from eq have range: "1 \<le> k" "k \<le> int (length ks)" "length ks \<le> 15"
    by (simp_all split: if_splits)
  with eq have c: "(case convert_pubkeys 0 ks of
              Inl e \<Rightarrow> Inl e
            | Inr pubkeys \<Rightarrow>
                lib_call (payments_p2ms lib k pubkeys net)
                  (multisig_result lib net (or_default addressType ''p2sh'') k ks)) = Inr r"
    by (simp split: if_splits)
  then obtain bs where bs: "convert_pubkeys 0 ks = Inr bs"
    by (cases "convert_pubkeys 0 ks") simp_all
  with c obtain script
    where "multisig_result lib net (or_default addressType ''p2sh'') k ks script = Inr r"
    by (auto simp: lib_call_Inr)
  from multisig_result_fields [OF this] range bs show ?thesis
    by (simp add: convert_pubkeys_Inr)
qed

lemma createMultisig_invalid_m:
  assumes "validateNetwork (or_default network ''testnet'')" and "k \<le> 0 \<or> int (length ks) < k"
  shows "createMultisig lib k ks network addressType
     = Inl (Error ''Invalid m value: must be between 1 and number of public keys'')"
proof -
  from resolveNetwork_valid [OF assms(1)] obtain net where "resolveNetwork network = Inr net" ..
  from createMultisig_checked [OF this] assms(2) show ?thesis
    by auto
qed

text \<open>
  C5, at an input the code accepts. A key of 67 hex digits is not valid hex (its length is
  odd) and is no encoding of 33 bytes, yet it passes both checks of \<open>create_multisig\<close>:
  the pattern \<open>^[0-9a-fA-F]+$\<close> does not test the length, and \<open>Buffer.from\<close> drops the
  last digit. With \<open>m = 1\<close> and this one key the handler reaches the library with the
  33 bytes of the first 66 digits, and what it returns then reports the 67-digit string
  as the public key; with a library that returns, the call succeeds.
\<close>

theorem createMultisig_accepts_odd_length_key:
  "\<not> isValidHex ''0279be667ef9dcbbac55a06295ce870b07029bfcdb2dce28d959f2815b16f817980''
   \<and> length ''0279be667ef9dcbbac55a06295ce870b07029bfcdb2dce28d959f2815b16f817980'' = 67
   \<and> bufferFromHex ''0279be667ef9dcbbac55a06295ce870b07029bfcdb2dce28d959f2815b16f817980''
       = bufferFromHex ''0279be667ef9dcbbac55a06295ce870b07029bfcdb2dce28d959f2815b16f81798''
   \<and> length (bufferFromHex
         ''0279be667ef9dcbbac55a06295ce870b07029bfcdb2dce28d959f2815b16f817980'') = 33
   \<and> (\<forall>lib. createMultisig lib 1
          [''0279be667ef9dcbbac55a06295ce870b07029bfcdb2dce28d959f2815b16f817980''] None None
        = lib_call (payments_p2ms lib 1
            [bufferFromHex ''0279be667ef9dcbbac55a06295ce870b07029bfcdb2dce28d959f2815b16f81798'']
            Testnet)
            (\<lambda>script. lib_call (p2sh_address lib script Testnet)
               (\<lambda>addr. Inr \<lparr>result_m = 1, result_n = 1,
                    publicKeys =
                      [''0279be667ef9dcbbac55a06295ce870b07029bfcdb2dce28d959f2815b16f817980''],
                    redeemScript = bufferToHex script, address = addr,
                    witnessScript = None, p2wsh = None\<rparr>)))
   \<and> createMultisig stub_lib 1
          [''0279be667ef9dcbbac55a06295ce870b07029bfcdb2dce28d959f2815b16f817980''] None None
        = Inr \<lparr>result_m = 1, result_n = 1,
               publicKeys =
                 [''0279be667ef9dcbbac55a06295ce870b07029bfcdb2dce28d959f2815b16f817980''],
               redeemScript = bufferToHex (81 # bufferFromHex
                 ''0279be667ef9dcbbac55a06295ce870b07029bfcdb2dce28d959f2815b16f81798''),
               address = ''2N-address'', witnessScript = None, p2wsh = None\<rparr>"
proof -
  define k7 where "k7 = ''0279be667ef9dcbbac55a06295ce870b07029bfcdb2dce28d959f2815b16f817980''"
  define k6 where "k6 = ''0279be667ef9dcbbac55a06295ce870b07029bfcdb2dce28d959f2815b16f81798''"
  have len: "length k7 = 67"
    by (simp add: k7_def)
  have digits: "list_all is_hex_digit k7"
    by (simp add: k7_def is_hex_digit_def)
  have odd: "\<not> isValidHex k7"
    by (simp add: isValidHex_def len)
  have trunc: "bufferFromHex k7 = bufferFromHex k6"
    by (simp add: k7_def k6_def hex_value_def)
  have bytes: "length (bufferFromHex k7) = 33"
    by (simp add: length_bufferFromHex [OF digits] len)
  have "key_accepted k7"
    using digits len by (auto simp: key_accepted_def k7_def)
  with convert_pubkeys_accepts [of "[k7]" 0]
  have conv: "convert_pubkeys 0 [k7] = Inr [bufferFromHex k6]"
    by (simp add: trunc del: convert_pubkeys.simps)
  have call: "createMultisig lib 1 [k7] None None
        = lib_call (payments_p2ms lib 1 [bufferFromHex k6] Testnet)
            (\<lambda>script. lib_call (p2sh_address lib script Testnet)
               (\<lambda>addr. Inr \<lparr>result_m = 1, result_n = 1, publicKeys = [k7],
                    redeemScript = bufferToHex script, address = addr,
                    witnessScript = None, p2wsh = None\<rparr>))" for lib
    unfolding createMultisig_checked [OF resolveNetwork_absent] conv
    by (simp add: multisig_result_def [abs_def] or_default_def)
  have stub: "createMultisig stub_lib 1 [k7] None None
        = Inr \<lparr>result_m = 1, result_n = 1, publicKeys = [k7],
               redeemScript = bufferToHex (81 # bufferFromHex k6),
               address = ''2N-address'', witnessScript = None, p2wsh = None\<rparr>"
    unfolding call by (simp add: lib_call_def stub_lib_def)
  from odd len trunc bytes call stub show ?thesis
    unfolding k7_def k6_def by blast
qed

subsection \<open>compile_script\<close>

lemma compileScript_nulldata:
  assumes "resolveNetwork network = Inr net" and "present scriptAsm = None"
    and "or_default scriptType ''p2pkh'' = ''nulldata''"
  shows "compileScript lib scriptAsm scriptType publicKey publicKeyHash scriptHash dat
           multisigConfig network =
     (case present dat of
        None \<Rightarrow> Inl (Error ''Data required for OP_RETURN script'')
      | Some h \<Rightarrow>
          if length (bufferFromHex h) > 80
          then Inl (Error ''OP_RETURN data too large (max 80 bytes)'')
          else lib_call (payments_embed lib [bufferFromHex h])
                 (script_result lib ''nulldata'' None None))"
  by (simp add: compileScript_def assms Let_def split: option.splits)

text \<open>
  C8. \<open>compile_script\<close> with script type \<open>nulldata\<close> and no \<open>scriptAsm\<close> throws the error
  that cites the 80-byte limit whenever the hex-decoded data is longer than 80 bytes;
  for data of exactly 80 bytes the handler passes the data to the library and succeeds
  with the script that \<open>payments.embed\<close> returns; without data it throws the
  \<open>Data required\<close> error.
\<close>

theorem nulldata_limit:
  assumes "validateNetwork (or_default network ''testnet'')"
    and "present scriptAsm = None"
    and "scriptType = Some ''nulldata''"
  shows "(present dat = None \<longrightarrow>
            compileScript lib scriptAsm scriptType publicKey publicKeyHash scriptHash dat
              multisigConfig network = Inl (Error ''Data required for OP_RETURN script''))
      \<and> (\<forall>h. present dat = Some h \<and> 80 < length (bufferFromHex h) \<longrightarrow>
            compileScript lib scriptAsm scriptType publicKey publicKeyHash scriptHash dat
              multisigConfig network = Inl (Error ''OP_RETURN data too large (max 80 bytes)''))
      \<and> (\<forall>h script asm. present dat = Some h \<and> length (bufferFromHex h) = 80
            \<and> payments_embed lib [bufferFromHex h] = Inr script
            \<and> script_toASM lib script = Inr asm \<longrightarrow>
            compileScript lib scriptAsm scriptType publicKey publicKeyHash scriptHash dat
              multisigConfig network =
              Inr \<lparr>script_type = ''nulldata'', script_hex = bufferToHex script,
                   script_asm = asm, script_addresses = None, script_p2sh = None,
                   script_p2wsh = None\<rparr>)
      \<and> (\<forall>h. present dat = Some h \<and> length (bufferFromHex h) = 80 \<longrightarrow>
            compileScript lib scriptAsm scriptType publicKey publicKeyHash scriptHash dat
              multisigConfig network =
              lib_call (payments_embed lib [bufferFromHex h])
                (script_result lib ''nulldata'' None None))"
proof -
  from resolveNetwork_valid [OF assms(1)] obtain net where net: "resolveNetwork network = Inr net" ..
  have ty: "or_default scriptType ''p2pkh'' = ''nulldata''"
    by (simp add: assms(3) or_default_def)
  show ?thesis
    unfolding compileScript_nulldata [OF net assms(2) ty]
    by (auto simp: script_result_def lib_call_def)
qed

theorem nulldata_limit_witness:
  "compileScript stub_lib None (Some ''nulldata'') None None None
       (Some (replicate 160 (CHR ''a''))) None None
     = Inr \<lparr>script_type = ''nulldata'',
            script_hex = bufferToHex (106 # bufferFromHex (replicate 160 (CHR ''a''))),
            script_asm = ''OP_RETURN ...'', script_addresses = None, script_p2sh = None,
            script_p2wsh = None\<rparr>
   \<and> length (bufferFromHex (replicate 160 (CHR ''a''))) = 80
   \<and> compileScript stub_lib None (Some ''nulldata'') None None None
       (Some (replicate 162 (CHR ''a''))) None None
     = Inl (Error ''OP_RETURN data too large (max 80 bytes)'')
   \<and> compileScript stub_lib None (Some ''nulldata'') None None None None None None
     = Inl (Error ''Data required for OP_RETURN script'')"
proof -
  have v: "validateNetwork (or_default None ''testnet'')"
    by (simp add: or_default_def validateNetwork_lower toLowerCase_def toLowerCase_char_def)
  have a: "present None = None"
    by (simp add: present_def)
  have hex: "list_all is_hex_digit (replicate k (CHR ''a''))" for k
    by (simp add: list_all_iff is_hex_digit_def)
  have l80: "length (bufferFromHex (replicate 160 (CHR ''a''))) = 80"
    and l81: "length (bufferFromHex (replicate 162 (CHR ''a''))) = 81"
    by (simp_all add: length_bufferFromHex [OF hex])
  have p: "present (Some (replicate 160 (CHR ''a''))) = Some (replicate 160 (CHR ''a''))"
      "present (Some (replicate 162 (CHR ''a''))) = Some (replicate 162 (CHR ''a''))"
    by (simp_all add: present_def)
  have e: "payments_embed stub_lib [bufferFromHex (replicate 160 (CHR ''a''))]
      = Inr (106 # bufferFromHex (replicate 160 (CHR ''a'')))"
    by (simp add: stub_lib_def)
  have t: "script_toASM stub_lib (106 # bufferFromHex (replicate 160 (CHR ''a'')))
      = Inr ''OP_RETURN ...''"
    by (simp add: stub_lib_def)
  note n = nulldata_limit [OF v a refl, where lib = stub_lib]
  from n [of "Some (replicate 160 (CHR ''a''))" None None None None] p(1) l80 e t
  have 1: "compileScript stub_lib None (Some ''nulldata'') None None None
       (Some (replicate 160 (CHR ''a''))) None None
     = Inr \<lparr>script_type = ''nulldata'',
            script_hex = bufferToHex (106 # bufferFromHex (replicate 160 (CHR ''a''))),
            script_asm = ''OP_RETURN ...'', script_addresses = None, script_p2sh = None,
            script_p2wsh = None\<rparr>"
    by blast
  from n [of "Some (replicate 162 (CHR ''a''))" None None None None] p(2) l81
  have 2: "compileScript stub_lib None (Some ''nulldata'') None None None
       (Some (replicate 162 (CHR ''a''))) None None
     = Inl (Error ''OP_RETURN data too large (max 80 bytes)'')"
    by simp
  from n [of None None None None None] a
  have 3: "compileScript stub_lib None (Some ''nulldata'') None None None None None None
     = Inl (Error ''Data required for OP_RETURN script'')"
    by blast
  from 1 l80 2 3 show ?thesis
    by blast
qed

subsection \<open>Input identifiers are injective\<close>

lemma less_16_cases:
  "d < 16 \<Longrightarrow> d \<in> {0, 1, 2, 3, 4, 5, 6, 7, 8, 9, 10, 11, 12, 13, 14, 15 :: nat}"
  by (simp only: insert_iff empty_iff) arith

lemma less_10_cases: "d < 10 \<Longrightarrow> d \<in> {0, 1, 2, 3, 4, 5, 6, 7, 8, 9 :: nat}"
  by (simp only: insert_iff empty_iff) arith

lemma hex_digit_char_value: "d < 16 \<Longrightarrow> hex_value (hex_digit_char d) = Some d"
  by (drule less_16_cases) (auto simp: hex_digit_char_def hex_value_def)

lemma hex_digit_char_hex: "d < 16 \<Longrightarrow> is_hex_digit (hex_digit_char d)"
  using hex_digit_char_value [of d] hex_value_Some [of "hex_digit_char d"] by simp

lemma digit_char_value: "d < 10 \<Longrightarrow> digit_value (digit_char d) = d"
  by (drule less_10_cases) (auto simp: digit_char_def digit_value_def)

lemma digit_char_hex: "d < 10 \<Longrightarrow> is_hex_digit (digit_char d)"
  by (drule less_10_cases) (auto simp: digit_char_def is_hex_digit_def)

lemma digits_value_snoc: "digits_value (s @ [c]) = 10 * digits_value s + digit_value c"
  by (simp add: digits_value_def)

lemma digits_value_decimal: "digits_value (decimal k) = k"
proof (induction k rule: decimal.induct)
  case (1 k)
  show ?case
  proof (cases "k < 10")
    case True
    then show ?thesis
      by (simp add: digits_value_def digit_char_value)
  next
    case False
    then have "decimal k = decimal (k div 10) @ [digit_char (k mod 10)]"
      by simp
    with 1 False show ?thesis
      by (simp add: digits_value_snoc digit_char_value)
  qed
qed

lemma decimal_inj: "decimal a = decimal b \<Longrightarrow> a = b"
  by (metis digits_value_decimal)

lemma decimal_digits: "list_all is_hex_digit (decimal k)"
proof (induction k rule: decimal.induct)
  case (1 k)
  show ?case
  proof (cases "k < 10")
    case True
    then show ?thesis
      by (simp add: digit_char_hex)
  next
    case False
    then have "decimal k = decimal (k div 10) @ [digit_char (k mod 10)]"
      by simp
    with 1 False show ?thesis
      by (simp add: digit_char_hex)
  qed
qed

lemma byte_hex_inj: "byte_hex a = byte_hex b \<Longrightarrow> a = b"
proof -
  assume "byte_hex a = byte_hex b"
  then have "hex_value (hex_digit_char (unat a div 16)) = hex_value (hex_digit_char (unat b div 16))"
    and "hex_value (hex_digit_char (unat a mod 16)) = hex_value (hex_digit_char (unat b mod 16))"
    by (simp_all add: byte_hex_def)
  moreover have "unat a div 16 < 16" "unat b div 16 < 16"
    using unsigned_less [of a, where 'a = nat] unsigned_less [of b, where 'a = nat] by simp_all
  ultimately have "unat a div 16 = unat b div 16" and "unat a mod 16 = unat b mod 16"
    by (simp_all add: hex_digit_char_value)
  then have "unat a = unat b"
    by (metis div_mult_mod_eq)
  then show "a = b"
    by (simp add: word_unat_eq_iff)
qed

lemma bufferToHex_inj: "bufferToHex a = bufferToHex b \<Longrightarrow> a = b"
proof (induction a arbitrary: b)
  case Nil
  then show ?case
    by (cases b) (simp_all add: bufferToHex_def byte_hex_def)
next
  case (Cons x xs)
  show ?case
  proof (cases b)
    case Nil
    with Cons.prems show ?thesis
      by (simp add: bufferToHex_def byte_hex_def)
  next
    case (Cons y ys)
    with Cons.prems have "byte_hex x @ bufferToHex xs = byte_hex y @ bufferToHex ys"
      by (simp add: bufferToHex_def)
    then have "byte_hex x = byte_hex y" and "bufferToHex xs = bufferToHex ys"
      by (simp_all add: byte_hex_def)
    with Cons.IH Cons show ?thesis
      by (simp add: byte_hex_inj)
  qed
qed

lemma bufferToHex_digits: "list_all is_hex_digit (bufferToHex bs)"
proof -
  have "unat b div 16 < 16" for b :: byte
    using unsigned_less [of b, where 'a = nat] by simp
  then show ?thesis
    by (induction bs) (simp_all add: bufferToHex_def byte_hex_def hex_digit_char_hex)
qed

lemma colon_not_hex: "list_all is_hex_digit s \<Longrightarrow> CHR '':'' \<notin> set s"
proof -
  have "\<not> is_hex_digit (CHR '':'')"
    by (simp add: is_hex_digit_def)
  then show "list_all is_hex_digit s \<Longrightarrow> CHR '':'' \<notin> set s"
    unfolding list_all_iff by blast
qed

lemma inputId_inj:
  "inputId a = inputId b \<longleftrightarrow> input_hash a = input_hash b \<and> input_index a = input_index b"
proof
  assume "inputId a = inputId b"
  then have "bufferToHex (rev (input_hash a)) @ CHR '':'' # decimal (input_index a)
      = bufferToHex (rev (input_hash b)) @ CHR '':'' # decimal (input_index b)"
    by (simp add: inputId_def)
  then have "bufferToHex (rev (input_hash a)) = bufferToHex (rev (input_hash b))
      \<and> decimal (input_index a) = decimal (input_index b)"
    using append_Cons_eq_iff [OF colon_not_hex [OF bufferToHex_digits]
        colon_not_hex [OF decimal_digits]]
    by blast
  then show "input_hash a = input_hash b \<and> input_index a = input_index b"
    using bufferToHex_inj decimal_inj by fastforce
next
  assume "input_hash a = input_hash b \<and> input_index a = input_index b"
  then show "inputId a = inputId b"
    by (simp add: inputId_def)
qed

subsection \<open>Transaction validation\<close>

lemma check_outputs_eq:
  "check_outputs (es, t) outputs =
     (es @ replicate (length (filter (\<lambda>output. output_value output < 0) outputs))
             ''Negative output value found'',
      t + sum_list (map output_value outputs))"
  unfolding check_outputs_def
  by (induction outputs arbitrary: es t) (simp_all add: replicate_app_Cons_same)

lemma distinct_map_same_kernel:
  assumes "\<And>x y. f x = f y \<longleftrightarrow> g x = g y"
  shows "distinct (map f xs) \<longleftrightarrow> distinct (map g xs)"
proof (induction xs)
  case Nil
  then show ?case by simp
next
  case (Cons x xs)
  have "f x \<in> f ` set xs \<longleftrightarrow> g x \<in> g ` set xs"
    using assms by (auto simp: image_iff)
  with Cons show ?case by simp
qed

lemma duplicate_inputs_ids:
  "length (map inputId (ins tx)) \<noteq> length (remdups (map inputId (ins tx)))
     \<longleftrightarrow> duplicate_inputs tx"
proof -
  have "distinct (map inputId (ins tx))
      \<longleftrightarrow> distinct (map (\<lambda>input. (input_hash input, input_index input)) (ins tx))"
    by (rule distinct_map_same_kernel) (simp add: inputId_inj)
  then show ?thesis
    unfolding duplicate_inputs_def
    by (metis length_remdups_eq remdups_id_iff_distinct)
qed

lemma check_transaction_eq:
  "check_transaction tx =
     (if ins tx = [] then [''Transaction has no inputs''] else [])
     @ (if outs tx = [] then [''Transaction has no outputs''] else [])
     @ (if duplicate_inputs tx then [''Transaction has duplicate inputs''] else [])
     @ replicate (length (filter (\<lambda>output. output_value output < 0) (outs tx)))
         ''Negative output value found''
     @ (if total_output tx > 21000000 * 100000000
        then [''Total output exceeds maximum Bitcoin supply''] else [])"
  unfolding check_transaction_def Let_def duplicate_inputs_ids check_outputs_eq total_output_def
  by simp

lemma negative_output_filter:
  "negative_output tx \<longleftrightarrow> filter (\<lambda>output. output_value output < 0) (outs tx) \<noteq> []"
  by (simp add: negative_output_def list_ex_iff filter_empty_conv)

text \<open>
  C4. For every parseable transaction hex (and a recognised network) the result of
  \<open>broadcast_transaction\<close> collects the violations of all five checks: no inputs, no
  outputs, duplicate input references (the same previous transaction id and output
  index twice), a negative output value, and a total output value above
  \<open>21,000,000 * 10^8\<close> base units. Each violation that occurs is in the list, whatever the
  other checks find, and \<open>valid\<close> is true exactly when the list is empty.
\<close>

theorem validation_collects_all_violations:
  assumes "validateNetwork (or_default network ''testnet'')"
    and "isValidHex hex"
    and "transaction_fromHex lib hex = Inr tx"
  shows "\<exists>r es. validateTransaction lib hex network = Inr r
     \<and> tx_errors r = (if es = [] then None else Some es)
     \<and> (tx_valid r \<longleftrightarrow> es = [])
     \<and> (''Transaction has no inputs'' \<in> set es \<longleftrightarrow> ins tx = [])
     \<and> (''Transaction has no outputs'' \<in> set es \<longleftrightarrow> outs tx = [])
     \<and> (''Transaction has duplicate inputs'' \<in> set es \<longleftrightarrow> duplicate_inputs tx)
     \<and> (''Negative output value found'' \<in> set es \<longleftrightarrow> negative_output tx)
     \<and> (''Total output exceeds maximum Bitcoin supply'' \<in> set es
           \<longleftrightarrow> total_output tx > 21000000 * 100000000)
     \<and> (tx_valid r \<longleftrightarrow>
           ins tx \<noteq> [] \<and> outs tx \<noteq> [] \<and> \<not> duplicate_inputs tx \<and> \<not> negative_output tx
           \<and> total_output tx \<le> 21000000 * 100000000)
     \<and> tx_txid r = Some (transaction_getId lib tx)
     \<and> tx_size r = Some (transaction_byteLength lib tx)"
proof -
  define es where "es = check_transaction tx"
  define r where "r = \<lparr>tx_valid = (length es = 0),
                        tx_txid = Some (transaction_getId lib tx),
                        tx_size = Some (transaction_byteLength lib tx),
                        tx_errors = (if length es > 0 then Some es else None)\<rparr>"
  have res: "validateTransaction lib hex network = Inr r"
    using assms by (simp add: validateTransaction_def Let_def r_def es_def)
  have neg: "''Negative output value found'' \<in> set es \<longleftrightarrow> negative_output tx"
    unfolding es_def check_transaction_eq negative_output_filter by auto
  have m1: "''Transaction has no inputs'' \<in> set es \<longleftrightarrow> ins tx = []"
    unfolding es_def check_transaction_eq by auto
  have m2: "''Transaction has no outputs'' \<in> set es \<longleftrightarrow> outs tx = []"
    unfolding es_def check_transaction_eq by auto
  have m3: "''Transaction has duplicate inputs'' \<in> set es \<longleftrightarrow> duplicate_inputs tx"
    unfolding es_def check_transaction_eq by auto
  have m5: "''Total output exceeds maximum Bitcoin supply'' \<in> set es
           \<longleftrightarrow> total_output tx > 21000000 * 100000000"
    unfolding es_def check_transaction_eq by auto
  have empty: "es = [] \<longleftrightarrow>
           ins tx \<noteq> [] \<and> outs tx \<noteq> [] \<and> \<not> duplicate_inputs tx \<and> \<not> negative_output tx
           \<and> total_output tx \<le> 21000000 * 100000000"
    unfolding es_def check_transaction_eq negative_output_filter by auto
  have fields: "tx_valid r = (es = [])" "tx_errors r = (if es = [] then None else Some es)"
      "tx_txid r = Some (transaction_getId lib tx)"
      "tx_size r = Some (transaction_byteLength lib tx)"
    by (simp_all add: r_def)
  show ?thesis
    apply (rule exI [of _ r])
    apply (rule exI [of _ es])
    using res neg m1 m2 m3 m5 empty fields
    apply simp
    done
qed

theorem validation_collects_all_violations_witness:
  "\<exists>r es. validateTransaction example_tx_lib ''00'' None = Inr r
     \<and> tx_errors r = Some es \<and> \<not> tx_valid r
     \<and> ''Transaction has duplicate inputs'' \<in> set es
     \<and> ''Negative output value found'' \<in> set es
     \<and> ''Total output exceeds maximum Bitcoin supply'' \<in> set es
     \<and> ''Transaction has no inputs'' \<notin> set es
     \<and> ''Transaction has no outputs'' \<notin> set es"
proof -
  have v: "validateNetwork (or_default None ''testnet'')"
    by (simp add: or_default_def validateNetwork_lower toLowerCase_def toLowerCase_char_def)
  have h: "isValidHex ''00''"
    by (simp add: isValidHex_def hex_star_iff is_hex_digit_def)
  have p: "transaction_fromHex example_tx_lib ''00'' = Inr example_tx"
    by (simp add: example_tx_lib_def)
  have d: "duplicate_inputs example_tx"
    by (simp add: duplicate_inputs_def example_tx_def)
  have n: "negative_output example_tx"
    by (simp add: negative_output_def example_tx_def)
  have t: "total_output example_tx > 21000000 * 100000000"
    by (simp add: total_output_def example_tx_def)
  have i: "ins example_tx \<noteq> []" "outs example_tx \<noteq> []"
    by (simp_all add: example_tx_def)
  from validation_collects_all_violations [OF v h p]
  obtain r es where r: "validateTransaction example_tx_lib ''00'' None = Inr r"
    "tx_errors r = (if es = [] then None else Some es)"
    "tx_valid r \<longleftrightarrow> es = []"
    "''Transaction has no inputs'' \<in> set es \<longleftrightarrow> ins example_tx = []"
    "''Transaction has no outputs'' \<in> set es \<longleftrightarrow> outs example_tx = []"
    "''Transaction has duplicate inputs'' \<in> set es \<longleftrightarrow> duplicate_inputs example_tx"
    "''Negative output value found'' \<in> set es \<longleftrightarrow> negative_output example_tx"
    "''Total output exceeds maximum Bitcoin supply'' \<in> set es
       \<longleftrightarrow> total_output example_tx > 21000000 * 100000000"
    by blast
  from r(6) d have "es \<noteq> []" by auto
  with r d n t i show ?thesis
    by auto
qed

subsection \<open>Key derivation\<close>





















end
